theory Spec2Isabelle
  imports Main "HOL-Library.Multiset" "HOL-Library.AList"
begin

section \<open>Python strings\<close>

text \<open>
  A Python \<open>str\<close> is a sequence of Unicode code points. A code point is a natural
  number, so that \<open>len\<close> counts what Python counts and \<open>str.strip\<close> can be given
  Python's own set of whitespace characters. \<open>py\<close> reads an ASCII literal.
\<close>

type_synonym pychar = nat
type_synonym pystr = "pychar list"

definition py :: "string \<Rightarrow> pystr" where
  "py s = map of_char s"

text \<open>
  \<open>str.isspace\<close> on one character: the ASCII table of the interpreter
  (\<open>0x09\<close>--\<open>0x0D\<close>, \<open>0x1C\<close>--\<open>0x20\<close>) and the Unicode whitespace code points.
\<close>

definition isspace :: "pychar \<Rightarrow> bool" where
  "isspace c =
     ((9 \<le> c \<and> c \<le> 13) \<or> (28 \<le> c \<and> c \<le> 32) \<or> c = 133 \<or> c = 160 \<or> c = 5760 \<or>
      (8192 \<le> c \<and> c \<le> 8202) \<or> c = 8232 \<or> c = 8233 \<or> c = 8239 \<or> c = 8287 \<or>
      c = 12288)"

text \<open>\<open>s.strip()\<close>: whitespace is dropped from both ends.\<close>

definition strip :: "pystr \<Rightarrow> pystr" where
  "strip s = rev (dropWhile isspace (rev (dropWhile isspace s)))"

text \<open>\<open>s.startswith(p)\<close> and \<open>s.endswith(p)\<close>.\<close>

definition startswith :: "pystr \<Rightarrow> pystr \<Rightarrow> bool" where
  "startswith s p = (take (length p) s = p)"

definition endswith :: "pystr \<Rightarrow> pystr \<Rightarrow> bool" where
  "endswith s p = (length p \<le> length s \<and> drop (length s - length p) s = p)"

text \<open>\<open>sub in s\<close>: \<open>sub\<close> occurs in \<open>s\<close> as a contiguous run.\<close>

fun contains :: "pystr \<Rightarrow> pystr \<Rightarrow> bool" where
  "contains [] sub = (sub = [])"
| "contains (c # cs) sub = (startswith (c # cs) sub \<or> contains cs sub)"


text \<open>\<open>s.split(sep)\<close> for a separator of one character: the pieces between the occurrences.\<close>

fun str_split_acc :: "pychar \<Rightarrow> pystr \<Rightarrow> pystr \<Rightarrow> pystr list" where
  "str_split_acc sep cur [] = [cur]"
| "str_split_acc sep cur (c # cs) =
     (if c = sep then cur # str_split_acc sep [] cs else str_split_acc sep (cur @ [c]) cs)"

definition str_split :: "pystr \<Rightarrow> pychar \<Rightarrow> pystr list" where
  "str_split s sep = str_split_acc sep [] s"


text \<open>\<open>sep.join(xs)\<close>.\<close>

fun str_join :: "pystr \<Rightarrow> pystr list \<Rightarrow> pystr" where
  "str_join sep [] = []"
| "str_join sep [x] = x"
| "str_join sep (x # y # ys) = x @ sep @ str_join sep (y # ys)"


text \<open>
  \<open>s.find(sub)\<close> and \<open>s.rfind(sub)\<close>: the lowest and the highest index at which \<open>sub\<close>
  occurs, \<open>-1\<close> when it does not occur.
\<close>

fun find_from :: "nat \<Rightarrow> pystr \<Rightarrow> pystr \<Rightarrow> int" where
  "find_from i [] sub = (if sub = [] then int i else - 1)"
| "find_from i (c # cs) sub =
     (if startswith (c # cs) sub then int i else find_from (Suc i) cs sub)"

definition str_find :: "pystr \<Rightarrow> pystr \<Rightarrow> int" where
  "str_find s sub = find_from 0 s sub"

fun rfind_from :: "nat \<Rightarrow> pystr \<Rightarrow> pystr \<Rightarrow> int" where
  "rfind_from i [] sub = (if sub = [] then int i else - 1)"
| "rfind_from i (c # cs) sub =
     (let r = rfind_from (Suc i) cs sub
      in if r \<noteq> - 1 then r else if startswith (c # cs) sub then int i else - 1)"

definition str_rfind :: "pystr \<Rightarrow> pystr \<Rightarrow> int" where
  "str_rfind s sub = rfind_from 0 s sub"


text \<open>
  \<open>s[start:stop]\<close>: a negative bound counts from the end, and every bound is clipped to
  \<open>0 .. len(s)\<close>.
\<close>

definition slice_index :: "pystr \<Rightarrow> int \<Rightarrow> nat" where
  "slice_index s i =
     (if i < 0 then nat (max 0 (i + int (length s))) else min (nat i) (length s))"

definition str_slice :: "pystr \<Rightarrow> int \<Rightarrow> int \<Rightarrow> pystr" where
  "str_slice s start stop = drop (slice_index s start) (take (slice_index s stop) s)"

section \<open>Answer comparison\<close>

text \<open>
  \<^verbatim>\<open>
  def normalize_datetime(s: str) -> str:
      s = s.strip()
      if s.endswith("Z"):
          s = s[:-1] + "+00:00"
      return s
  \<close>
  The slice \<open>s[:-1]\<close> keeps the first \<open>len(s) - 1\<close> characters.
\<close>

definition normalize_datetime :: "pystr \<Rightarrow> pystr" where
  "normalize_datetime s0 =
     (let s = strip s0
      in if endswith s (py ''Z'') then take (length s - 1) s @ py ''+00:00'' else s)"

text \<open>The dictionary that \<open>compare_answers\<close> returns, one field for each of its six keys.\<close>

record verdict =
  correct :: bool
  expected_count :: nat
  actual_count :: nat
  matching :: nat
  missing :: "pystr list"
  extra :: "pystr list"

text \<open>
  \<^verbatim>\<open>
  def compare_answers(expected: list[str], actual: list[str]) -> dict:
      norm_expected = [normalize_datetime(e) for e in expected]
      norm_actual = [normalize_datetime(a) for a in actual]
      matching = sum(1 for e, a in zip(norm_expected, norm_actual) if e == a)
      missing = [e for e in norm_expected if e not in norm_actual]
      extra = [a for a in norm_actual if a not in norm_expected]
      return {"correct": norm_expected == norm_actual, ...}
  \<close>
\<close>

definition compare_answers :: "pystr list \<Rightarrow> pystr list \<Rightarrow> verdict" where
  "compare_answers expected actual =
     (let norm_expected = map normalize_datetime expected;
          norm_actual = map normalize_datetime actual;
          matching = sum_list (map (\<lambda>(e, a). 1) (filter (\<lambda>(e, a). e = a) (zip norm_expected norm_actual)));
          missing = filter (\<lambda>e. e \<notin> set norm_actual) norm_expected;
          extra = filter (\<lambda>a. a \<notin> set norm_expected) norm_actual
      in \<lparr> correct = (norm_expected = norm_actual),
           expected_count = length norm_expected,
           actual_count = length norm_actual,
           matching = matching,
           missing = missing,
           extra = extra \<rparr>)"

section \<open>Exceptions and decoded JSON values\<close>

text \<open>
  The exceptions (subclasses of \<open>Exception\<close>) that the program meets: the decoder's
  \<open>JSONDecodeError\<close>, \<open>KeyError\<close> for a missing dictionary key, \<open>TypeError\<close> for
  iterating a value that is not iterable, \<open>AttributeError\<close> for a value with no \<open>strip\<close>
  method, the \<open>ValueError\<close> that \<open>run_llm\<close> raises, and \<open>OtherError\<close> for whatever an
  external capability raises.
\<close>

datatype exn =
    JSONDecodeError
  | KeyError pystr
  | TypeError
  | AttributeError
  | ValueError pystr
  | OtherError pystr

text \<open>
  What \<open>json.loads\<close> returns: \<open>None\<close>, a \<open>bool\<close>, a number, a \<open>str\<close>, a \<open>list\<close> or a
  \<open>dict\<close>. A number keeps its literal (\<open>int\<close> and \<open>float\<close> values are not computed with),
  a \<open>dict\<close> its items in insertion order.
\<close>

datatype json =
    JNull
  | JBool bool
  | JNum pystr
  | JStr pystr
  | JArr "json list"
  | JObj "(pystr \<times> json) list"

section \<open>The JSON decoder of the standard library\<close>

text \<open>
  \<open>json.loads\<close> belongs to Python's standard library; the repository calls it on the
  agent's text. Its model follows \<open>json/decoder.py\<close> and \<open>json/scanner.py\<close>: the same lexical
  rules (whitespace, string escapes, number syntax, the literals and the three float
  constants) produce tokens, and a stack machine accepts the grammar of \<open>JSONArray\<close>,
  \<open>JSONObject\<close> and \<open>decode\<close>. Every failure of the decoder is the one exception
  \<open>JSONDecodeError\<close>; the interpreter's limits (recursion depth, digits of an integer) are
  not modelled.
\<close>

text \<open>\<open>WHITESPACE_STR = ' \t\n\r'\<close> and the digits \<open>0\<close>--\<open>9\<close>.\<close>

definition json_ws :: "pychar \<Rightarrow> bool" where
  "json_ws c = (c = 32 \<or> c = 9 \<or> c = 10 \<or> c = 13)"

definition is_digit :: "pychar \<Rightarrow> bool" where
  "is_digit c = (48 \<le> c \<and> c \<le> 57)"

text \<open>
  \<open>_decode_uXXXX\<close>: the four hexadecimal digits after \<open>\u\<close>; the argument is the text
  that follows the \<open>u\<close>.
\<close>

definition hex_digit :: "pychar \<Rightarrow> nat option" where
  "hex_digit c =
     (if 48 \<le> c \<and> c \<le> 57 then Some (c - 48)
      else if 97 \<le> c \<and> c \<le> 102 then Some (c - 87)
      else if 65 \<le> c \<and> c \<le> 70 then Some (c - 55)
      else None)"

definition decode_uXXXX :: "pystr \<Rightarrow> nat option" where
  "decode_uXXXX s =
     (case s of
        a # b # c # d # _ \<Rightarrow>
          (case (hex_digit a, hex_digit b, hex_digit c, hex_digit d) of
             (Some x, Some y, Some z, Some w) \<Rightarrow> Some (((x * 16 + y) * 16 + z) * 16 + w)
           | _ \<Rightarrow> None)
      | _ \<Rightarrow> None)"

text \<open>The table \<open>BACKSLASH\<close> of the one-character escapes.\<close>

definition BACKSLASH :: "pychar \<Rightarrow> pychar option" where
  "BACKSLASH e =
     (if e = 34 then Some 34 else if e = 92 then Some 92 else if e = 47 then Some 47
      else if e = 98 then Some 8 else if e = 102 then Some 12 else if e = 110 then Some 10
      else if e = 114 then Some 13 else if e = 116 then Some 9 else None)"

text \<open>
  \<open>scanstring\<close>, strict: the argument is the text after the opening quote, the
  result the decoded string and the text after the closing quote. A quote ends the string,
  a backslash starts an escape, any other character below \<open>0x20\<close> is refused. A high
  surrogate escape directly followed by a low one gives one code point.
\<close>

fun scanstring :: "pystr \<Rightarrow> pystr \<Rightarrow> (pystr \<times> pystr) option" where
  "scanstring [] acc = None"
| "scanstring (c # cs) acc =
     (if c = 34 then Some (acc, cs)
      else if c = 92 then
        (case cs of
           [] \<Rightarrow> None
         | e # es \<Rightarrow>
             if e \<noteq> 117 then
               (case BACKSLASH e of
                  None \<Rightarrow> None
                | Some ch \<Rightarrow> scanstring es (acc @ [ch]))
             else
               (case decode_uXXXX es of
                  None \<Rightarrow> None
                | Some uni \<Rightarrow>
                    if 55296 \<le> uni \<and> uni \<le> 56319 \<and> take 2 (drop 4 es) = [92, 117] then
                      (case decode_uXXXX (drop 6 es) of
                         None \<Rightarrow> None
                       | Some uni2 \<Rightarrow>
                           if 56320 \<le> uni2 \<and> uni2 \<le> 57343
                           then scanstring (drop 10 es)
                                  (acc @ [65536 + ((uni - 55296) * 1024 + (uni2 - 56320))])
                           else scanstring (drop 4 es) (acc @ [uni]))
                    else scanstring (drop 4 es) (acc @ [uni])))
      else if c < 32 then None
      else scanstring cs (acc @ [c]))"

text \<open>
  \<open>NUMBER_RE\<close> is \<open>(-?(?:0|[1-9]\d*))(\.\d+)?([eE][-+]?\d+)?\<close>: an integer part, then a
  fraction and an exponent, each taken only when it matches whole.
\<close>

definition match_exponent :: "pystr \<Rightarrow> pystr \<times> pystr" where
  "match_exponent s =
     (case s of
        [] \<Rightarrow> ([], s)
      | e # t \<Rightarrow>
          if e = 101 \<or> e = 69 then
            (let (sg, u) = (case t of
                              [] \<Rightarrow> ([], t)
                            | c # cs \<Rightarrow> if c = 43 \<or> c = 45 then ([c], cs) else ([], t))
             in case u of
                  [] \<Rightarrow> ([], s)
                | d # _ \<Rightarrow>
                    if is_digit d then (e # sg @ takeWhile is_digit u, dropWhile is_digit u)
                    else ([], s))
          else ([], s))"

definition match_fraction :: "pystr \<Rightarrow> pystr \<times> pystr" where
  "match_fraction s =
     (case s of
        p # d # r \<Rightarrow>
          if p = 46 \<and> is_digit d then (p # takeWhile is_digit (d # r), dropWhile is_digit (d # r))
          else ([], s)
      | _ \<Rightarrow> ([], s))"

definition match_number :: "pystr \<Rightarrow> (pystr \<times> pystr) option" where
  "match_number s =
     (let (sign, s1) = (case s of
                          [] \<Rightarrow> ([], s)
                        | c # cs \<Rightarrow> if c = 45 then ([c], cs) else ([], s))
      in case s1 of
           [] \<Rightarrow> None
         | d # ds \<Rightarrow>
             if \<not> is_digit d then None
             else
               (let (ip, s2) = (if d = 48 then ([d], ds)
                                else (takeWhile is_digit s1, dropWhile is_digit s1));
                    (fp, s3) = match_fraction s2;
                    (ep, s4) = match_exponent s3
                in Some (sign @ ip @ fp @ ep, s4)))"

text \<open>
  The branches of \<open>_scan_once\<close> that read neither a string nor a bracket, in its order:
  \<open>null\<close>, \<open>true\<close>, \<open>false\<close>, a number, \<open>NaN\<close>, \<open>Infinity\<close>, \<open>-Infinity\<close>.
\<close>

definition scan_atom :: "pystr \<Rightarrow> (json \<times> pystr) option" where
  "scan_atom s =
     (if startswith s (py ''null'') then Some (JNull, drop 4 s)
      else if startswith s (py ''true'') then Some (JBool True, drop 4 s)
      else if startswith s (py ''false'') then Some (JBool False, drop 5 s)
      else
        (case match_number s of
           Some (n, rest) \<Rightarrow> Some (JNum n, rest)
         | None \<Rightarrow>
             if startswith s (py ''NaN'') then Some (JNum (py ''NaN''), drop 3 s)
             else if startswith s (py ''Infinity'') then Some (JNum (py ''Infinity''), drop 8 s)
             else if startswith s (py ''-Infinity'') then Some (JNum (py ''-Infinity''), drop 9 s)
             else None))"

datatype token = LBracket | RBracket | LBrace | RBrace | Comma | Colon | Atom json

text \<open>Each scanner consumes at least one character, which is why tokenizing terminates.\<close>

lemma scanstring_shorter:
  "scanstring s acc = Some (str, rest) \<Longrightarrow> length rest < length s"
proof (induction "length s" arbitrary: s acc rule: less_induct)
  case less
  show ?case
  proof (cases s)
    case Nil
    with less.prems show ?thesis by simp
  next
    case (Cons c cs)
    have IH: "length rest < Suc (length cs)"
      if a: "scanstring s' acc' = Some (str, rest)" and b: "length s' \<le> length cs" for s' acc'
    proof -
      have "length s' < length s" using b Cons by simp
      then have "length rest < length s'" using a by (rule less.hyps)
      then show ?thesis using b by simp
    qed
    show ?thesis
      using less.prems Cons
      by (auto split: if_splits list.splits option.splits dest!: IH)
  qed
qed

lemma match_exponent_shorter: "match_exponent s = (e, rest) \<Longrightarrow> length rest \<le> length s"
  by (auto simp: match_exponent_def split: list.splits if_splits prod.splits
           intro: le_trans [OF length_dropWhile_le])

lemma match_fraction_shorter: "match_fraction s = (e, rest) \<Longrightarrow> length rest \<le> length s"
  by (auto simp: match_fraction_def split: list.splits if_splits
           intro: le_trans [OF length_dropWhile_le])

lemma match_number_shorter:
  assumes "match_number s = Some (n, rest)"
  shows "length rest < length s"
proof -
  obtain sign s1 where s1: "(case s of [] \<Rightarrow> ([], s) | c # cs \<Rightarrow> if c = 45 then ([c], cs) else ([], s)) = (sign, s1)"
    by (cases "case s of [] \<Rightarrow> ([]::pystr, s) | c # cs \<Rightarrow> if c = 45 then ([c], cs) else ([], s)") auto
  then have l1: "length s1 \<le> length s"
    by (auto split: list.splits if_splits)
  from assms s1 obtain d ds where s1c: "s1 = d # ds" and dig: "is_digit d"
    by (cases s1) (auto simp: match_number_def split: if_splits)
  obtain ip s2 where s2: "(if d = 48 then ([d], ds) else (takeWhile is_digit s1, dropWhile is_digit s1)) = (ip, s2)"
    by (cases "if d = 48 then ([d], ds) else (takeWhile is_digit s1, dropWhile is_digit s1)") auto
  have "length (dropWhile is_digit ds) \<le> length ds" by (rule length_dropWhile_le)
  then have l2: "length s2 < length s1"
    using s2 s1c dig by (auto split: if_splits)
  obtain fp s3 where s3: "match_fraction s2 = (fp, s3)" by (cases "match_fraction s2") auto
  obtain ep s4 where s4: "match_exponent s3 = (ep, s4)" by (cases "match_exponent s3") auto
  have "rest = s4"
    using assms s1 dig s2 s3 s4 unfolding s1c by (simp add: match_number_def)
  moreover have "length s4 \<le> length s3" using s4 by (rule match_exponent_shorter)
  moreover have "length s3 \<le> length s2" using s3 by (rule match_fraction_shorter)
  ultimately show ?thesis using l1 l2 by simp
qed

lemma scan_atom_shorter:
  "scan_atom s = Some (v, rest) \<Longrightarrow> length rest < length s"
  by (cases s)
     (auto simp: scan_atom_def startswith_def py_def split: if_splits option.splits
           dest: match_number_shorter)

function tokenize :: "pystr \<Rightarrow> token list option" where
  "tokenize [] = Some []"
| "tokenize (c # cs) =
     (if json_ws c then tokenize cs
      else if c = 91 then map_option (Cons LBracket) (tokenize cs)
      else if c = 93 then map_option (Cons RBracket) (tokenize cs)
      else if c = 123 then map_option (Cons LBrace) (tokenize cs)
      else if c = 125 then map_option (Cons RBrace) (tokenize cs)
      else if c = 44 then map_option (Cons Comma) (tokenize cs)
      else if c = 58 then map_option (Cons Colon) (tokenize cs)
      else if c = 34 then
        (case scanstring cs [] of
           None \<Rightarrow> None
         | Some (str, rest) \<Rightarrow> map_option (Cons (Atom (JStr str))) (tokenize rest))
      else
        (case scan_atom (c # cs) of
           None \<Rightarrow> None
         | Some (v, rest) \<Rightarrow> map_option (Cons (Atom v)) (tokenize rest)))"
  by pat_completeness auto
termination
proof (relation "measure length")
  show "wf (measure length)" by simp
qed (auto dest: scanstring_shorter scan_atom_shorter)

text \<open>
  The grammar. A frame is an array or an object under construction; \<open>InMember d k\<close> is an
  object that has read the key \<open>k\<close> and its colon. \<open>dict(pairs)\<close> keeps the first position
  of a repeated key and its last value, as \<open>AList.update\<close> does.
\<close>

datatype frame =
    InArray "json list"
  | InObject "(pystr \<times> json) list"
  | InMember "(pystr \<times> json) list" pystr

datatype mode =
    WantValue
  | WantValueOrClose
  | WantKeyOrClose
  | WantKey
  | WantColon pystr
  | Got json

fun step :: "token \<Rightarrow> mode \<times> frame list \<Rightarrow> (mode \<times> frame list) option" where
  "step (Atom v) (WantValue, st) = Some (Got v, st)"
| "step LBracket (WantValue, st) = Some (WantValueOrClose, InArray [] # st)"
| "step LBrace (WantValue, st) = Some (WantKeyOrClose, InObject [] # st)"
| "step (Atom v) (WantValueOrClose, st) = Some (Got v, st)"
| "step LBracket (WantValueOrClose, st) = Some (WantValueOrClose, InArray [] # st)"
| "step LBrace (WantValueOrClose, st) = Some (WantKeyOrClose, InObject [] # st)"
| "step RBracket (WantValueOrClose, InArray xs # st) = Some (Got (JArr xs), st)"
| "step (Atom (JStr k)) (WantKeyOrClose, st) = Some (WantColon k, st)"
| "step RBrace (WantKeyOrClose, InObject d # st) = Some (Got (JObj d), st)"
| "step (Atom (JStr k)) (WantKey, st) = Some (WantColon k, st)"
| "step Colon (WantColon k, InObject d # st) = Some (WantValue, InMember d k # st)"
| "step Comma (Got v, InArray xs # st) = Some (WantValue, InArray (xs @ [v]) # st)"
| "step Comma (Got v, InMember d k # st) = Some (WantKey, InObject (AList.update k v d) # st)"
| "step RBracket (Got v, InArray xs # st) = Some (Got (JArr (xs @ [v])), st)"
| "step RBrace (Got v, InMember d k # st) = Some (Got (JObj (AList.update k v d)), st)"
| "step _ _ = None"

fun parse_tokens :: "token list \<Rightarrow> mode \<times> frame list \<Rightarrow> json option" where
  "parse_tokens [] (Got v, []) = Some v"
| "parse_tokens [] _ = None"
| "parse_tokens (t # ts) s = (case step t s of None \<Rightarrow> None | Some s' \<Rightarrow> parse_tokens ts s')"

text \<open>
  \<open>json.loads(s)\<close> for a \<open>str\<close>: a leading byte order mark is refused, then the whole
  text must be one value between optional whitespace.
\<close>

definition json_loads :: "pystr \<Rightarrow> exn + json" where
  "json_loads s =
     (if startswith s [65279] then Inl JSONDecodeError
      else
        (case tokenize s of
           None \<Rightarrow> Inl JSONDecodeError
         | Some ts \<Rightarrow>
             (case parse_tokens ts (WantValue, []) of
                None \<Rightarrow> Inl JSONDecodeError
              | Some v \<Rightarrow> Inr v)))"

section \<open>Parsing the agent's response\<close>

text \<open>
  \<^verbatim>\<open>
  def parse_llm_response(response: str) -> list[str]:
      text = response.strip()
      if "```" in text:
          lines = text.split("\n")
          in_block = False
          block_lines: list[str] = []
          for line in lines:
              if line.strip().startswith("```"):
                  if in_block:
                      break  # end of first code block
                  in_block = True
                  continue
              if in_block:
                  block_lines.append(line)
          if block_lines:
              text = "\n".join(block_lines).strip()
      start = text.find("[")
      end = text.rfind("]")
      if start != -1 and end != -1:
          text = text[start : end + 1]
      return json.loads(text)
  \<close>
  \<open>fence_loop\<close> is the \<open>for\<close> loop, with \<open>in_block\<close> and \<open>block_lines\<close> as its state; the
  result of the function is whatever value the decoder returns.
\<close>

fun fence_loop :: "pystr list \<Rightarrow> bool \<Rightarrow> pystr list \<Rightarrow> pystr list" where
  "fence_loop [] in_block block_lines = block_lines"
| "fence_loop (line # lines) in_block block_lines =
     (if startswith (strip line) (py ''```'') then
        (if in_block then block_lines
         else fence_loop lines True block_lines)
      else if in_block then fence_loop lines in_block (block_lines @ [line])
      else fence_loop lines in_block block_lines)"

definition parse_llm_response :: "pystr \<Rightarrow> exn + json" where
  "parse_llm_response response =
     (let text = strip response;
          text = (if contains text (py ''```'') then
                    (let lines = str_split text 10;
                         block_lines = fence_loop lines False []
                     in if block_lines \<noteq> [] then strip (str_join [10] block_lines) else text)
                  else text);
          start = str_find text (py ''['');
          end' = str_rfind text (py '']'');
          text = (if start \<noteq> - 1 \<and> end' \<noteq> - 1 then str_slice text start (end' + 1) else text)
      in json_loads text)"

text \<open>
  \<open>compare_answers\<close> is called on the value that \<open>parse_llm_response\<close> returned, which
  may be any decoded value. \<open>for a in actual\<close> raises \<open>TypeError\<close> on a value that is not
  iterable, yields the characters of a \<open>str\<close> and the keys of a \<open>dict\<close>;
  \<open>normalize_datetime(a)\<close> raises \<open>AttributeError\<close> on the first item that is not a \<open>str\<close>.
\<close>

fun iter_values :: "json \<Rightarrow> exn + json list" where
  "iter_values (JArr xs) = Inr xs"
| "iter_values (JStr s) = Inr (map (\<lambda>c. JStr [c]) s)"
| "iter_values (JObj d) = Inr (map (\<lambda>(k, v). JStr k) d)"
| "iter_values _ = Inl TypeError"

fun str_items :: "json list \<Rightarrow> exn + pystr list" where
  "str_items [] = Inr []"
| "str_items (JStr s # xs) =
     (case str_items xs of Inl e \<Rightarrow> Inl e | Inr ss \<Rightarrow> Inr (s # ss))"
| "str_items (_ # xs) = Inl AttributeError"

definition compare_answers_dyn :: "pystr list \<Rightarrow> json \<Rightarrow> exn + verdict" where
  "compare_answers_dyn expected actual =
     (case iter_values actual of
        Inl e \<Rightarrow> Inl e
      | Inr items \<Rightarrow>
          (case str_items items of
             Inl e \<Rightarrow> Inl e
           | Inr strs \<Rightarrow> Inr (compare_answers expected strs)))"

section \<open>Challenges and ground truth\<close>

text \<open>
  A challenge is one object of \<open>challenges.json\<close>. The keys that the program reads with
  \<open>challenge[...]\<close> are fields, the keys it reads with \<open>challenge.get(...)\<close> are optional
  fields (\<open>None\<close> when the key is absent). The key \<open>why_llms_fail\<close> is read only when a
  result is printed and is left out.
\<close>

record challenge =
  ch_id :: pystr
  ch_name :: pystr
  question :: pystr
  rrule :: pystr
  dtstart :: pystr
  timezone :: pystr
  duration_minutes :: int
  until :: "pystr option"
  exdates :: "pystr list option"
  max_count :: "int option"
  difficulty :: pystr
  verification_mode :: "pystr option"
  correct_answer :: "pystr list option"

text \<open>
  The program's surroundings. Each external capability takes the state of the outside
  world and returns a result or an exception together with the new state, so that a call
  is visible in the state and two calls need not agree.
  \<^item> \<open>expand_rrule\<close> is the Truth Engine of \<open>temporal_cortex_toon\<close>. It answers with the JSON
    text of a list of event objects; the model takes the call together with the decoding of
    that text (\<open>json.loads(result_json)\<close>), whose failure is a failure of the call, and
    \<open>event\<close> is one decoded object, of which the program reads the key \<open>start\<close>.
  \<^item> \<open>openai_chat\<close> and \<open>anthropic_messages\<close> are the two provider clients, called with the
    model name, the system prompt and the user prompt.
  \<^item> \<open>exn_str\<close> is \<open>str(e)\<close>, the message of an exception, which the raising library fixes.
\<close>

record event =
  start :: pystr

record 'w env =
  expand_rrule ::
    "pystr \<Rightarrow> pystr \<Rightarrow> int \<Rightarrow> pystr \<Rightarrow> pystr option \<Rightarrow> int option \<Rightarrow> 'w \<Rightarrow> (exn + event list) \<times> 'w"
  openai_chat :: "pystr \<Rightarrow> pystr \<Rightarrow> pystr \<Rightarrow> 'w \<Rightarrow> (exn + pystr) \<times> 'w"
  anthropic_messages :: "pystr \<Rightarrow> pystr \<Rightarrow> pystr \<Rightarrow> 'w \<Rightarrow> (exn + pystr) \<times> 'w"
  exn_str :: "exn \<Rightarrow> pystr"

text \<open>
  \<^verbatim>\<open>
  def verify_challenge(challenge: dict) -> list[str]:
      if challenge.get("verification_mode") == "hardcoded":
          return challenge["correct_answer"]
      from temporal_cortex_toon import expand_rrule
      result_json = expand_rrule(
          challenge["rrule"], challenge["dtstart"], challenge["duration_minutes"],
          challenge["timezone"], challenge.get("until"), challenge.get("max_count"))
      events = json.loads(result_json)
      return [e["start"] for e in events]
  \<close>
\<close>

definition verify_challenge :: "'w env \<Rightarrow> challenge \<Rightarrow> 'w \<Rightarrow> (exn + pystr list) \<times> 'w" where
  "verify_challenge env ch w =
     (if verification_mode ch = Some (py ''hardcoded'') then
        (case correct_answer ch of
           None \<Rightarrow> (Inl (KeyError (py ''correct_answer'')), w)
         | Some answer \<Rightarrow> (Inr answer, w))
      else
        (case expand_rrule env (rrule ch) (dtstart ch) (duration_minutes ch) (timezone ch)
                (until ch) (max_count ch) w of
           (Inl e, w') \<Rightarrow> (Inl e, w')
         | (Inr events, w') \<Rightarrow> (Inr (map start events), w')))"

text \<open>
  \<^verbatim>\<open>
  def verify_all(challenges: list[dict]) -> dict[str, list[str] | str]:
      results = {}
      for ch in challenges:
          try:
              results[ch["id"]] = verify_challenge(ch)
          except Exception as e:
              results[ch["id"]] = f"ERROR: {e}"
      return results
  \<close>
  The dictionary is an association list in insertion order; a value is the list of start
  times (\<open>Inr\<close>) or the error string (\<open>Inl\<close>).
\<close>

fun verify_all_loop ::
  "'w env \<Rightarrow> challenge list \<Rightarrow> (pystr \<times> (pystr + pystr list)) list \<Rightarrow> 'w
     \<Rightarrow> (pystr \<times> (pystr + pystr list)) list \<times> 'w" where
  "verify_all_loop env [] results w = (results, w)"
| "verify_all_loop env (ch # chs) results w =
     (case verify_challenge env ch w of
        (Inr answer, w') \<Rightarrow>
          verify_all_loop env chs (AList.update (ch_id ch) (Inr answer) results) w'
      | (Inl e, w') \<Rightarrow>
          verify_all_loop env chs
            (AList.update (ch_id ch) (Inl (py ''ERROR: '' @ exn_str env e)) results) w')"

definition verify_all ::
  "'w env \<Rightarrow> challenge list \<Rightarrow> 'w \<Rightarrow> (pystr \<times> (pystr + pystr list)) list \<times> 'w" where
  "verify_all env challenges w = verify_all_loop env challenges [] w"

section \<open>The test run\<close>

text \<open>The system prompt, as \<open>dedent\<close> leaves it.\<close>

definition SYSTEM_PROMPT :: pystr where
  "SYSTEM_PROMPT = py (
     ''You are a calendar computation expert. You will be given recurrence rule\<newline>'' @
     ''(RRULE) challenges per RFC 5545. For each challenge, compute the exact\<newline>'' @
     ''UTC start times of the specified recurring events.\<newline>'' @
     ''\<newline>'' @
     ''Rules:\<newline>'' @
     ''- Output ONLY a JSON array of UTC datetime strings in RFC 3339 format.\<newline>'' @
     ''- Use the +00:00 suffix (not Z).\<newline>'' @
     ''- Account for DST transitions, leap years, and timezone offsets.\<newline>'' @
     ''- Double-check your work: count the occurrences carefully.\<newline>'' @
     ''\<newline>'' @
     ''Example output format:\<newline>'' @
     ''[\"2026-03-01T07:00:00+00:00\", \"2026-03-08T07:00:00+00:00\"]\<newline>'')"

text \<open>\<open>str(n)\<close> for an integer: its decimal digits, after a minus sign when negative.\<close>

fun str_nat :: "nat \<Rightarrow> pystr" where
  "str_nat n = (if n < 10 then [48 + n] else str_nat (n div 10) @ [48 + n mod 10])"

declare str_nat.simps [simp del]

definition str_int :: "int \<Rightarrow> pystr" where
  "str_int i = (if i < 0 then 45 # str_nat (nat (- i)) else str_nat (nat i))"

text \<open>
  \<^verbatim>\<open>
  def build_prompt(challenge: dict) -> str:
      parts = [
          f"Challenge: {challenge['name']}", "", challenge["question"], "",
          "Technical details:",
          f"  RRULE: {challenge['rrule']}",
          f"  DTSTART: {challenge['dtstart']} (local time in the specified timezone)",
          f"  Timezone: {challenge['timezone']}",
          f"  Duration: {challenge['duration_minutes']} minutes",
      ]
      if challenge.get("until"):
          parts.append(f"  UNTIL: {challenge['until']} (local time in the specified timezone)")
      if challenge.get("exdates"):
          parts.append(f"  EXDATE: {', '.join(challenge['exdates'])}")
      parts.append("")
      parts.append("Return ONLY the JSON array of UTC start times.")
      return "\n".join(parts)
  \<close>
  An absent key, an empty string and an empty list are all false in an \<open>if\<close>.
\<close>

definition build_prompt :: "challenge \<Rightarrow> pystr" where
  "build_prompt ch =
     (let parts =
            [py ''Challenge: '' @ ch_name ch,
             [],
             question ch,
             [],
             py ''Technical details:'',
             py ''  RRULE: '' @ rrule ch,
             py ''  DTSTART: '' @ dtstart ch @ py '' (local time in the specified timezone)'',
             py ''  Timezone: '' @ timezone ch,
             py ''  Duration: '' @ str_int (duration_minutes ch) @ py '' minutes''];
          parts = (case until ch of
                     None \<Rightarrow> parts
                   | Some u \<Rightarrow>
                       if u \<noteq> []
                       then parts @ [py ''  UNTIL: '' @ u @ py '' (local time in the specified timezone)'']
                       else parts);
          parts = (case exdates ch of
                     None \<Rightarrow> parts
                   | Some xs \<Rightarrow>
                       if xs \<noteq> [] then parts @ [py ''  EXDATE: '' @ str_join (py '', '') xs]
                       else parts);
          parts = parts @ [[]];
          parts = parts @ [py ''Return ONLY the JSON array of UTC start times.'']
      in str_join [10] parts)"

text \<open>
  \<^verbatim>\<open>
  def run_llm(provider: str, model: str, system: str, user: str) -> str:
      if provider == "openai":
          ... return response.choices[0].message.content
      elif provider == "anthropic":
          ... return response.content[0].text
      else:
          raise ValueError(f"Unknown provider: {provider}")
  \<close>
\<close>

definition run_llm ::
  "'w env \<Rightarrow> pystr \<Rightarrow> pystr \<Rightarrow> pystr \<Rightarrow> pystr \<Rightarrow> 'w \<Rightarrow> (exn + pystr) \<times> 'w" where
  "run_llm env provider model system user w =
     (if provider = py ''openai'' then openai_chat env model system user w
      else if provider = py ''anthropic'' then anthropic_messages env model system user w
      else (Inl (ValueError (py ''Unknown provider: '' @ provider)), w))"

text \<open>
  The arguments of the \<open>test\<close> command that the evaluation reads (\<open>--output\<close> and
  \<open>--verbose\<close> only steer what is printed and saved), and one entry of \<open>results\<close>: the six
  keys of the comparison together with \<open>id\<close>, \<open>name\<close>, \<open>difficulty\<close>, \<open>expected\<close>, \<open>actual\<close> and
  \<open>raw_response\<close>.
\<close>

record args =
  arg_challenge :: "pystr option"
  arg_model :: pystr
  arg_provider :: pystr

record row = verdict +
  row_id :: pystr
  row_name :: pystr
  row_difficulty :: pystr
  row_expected :: "pystr list"
  row_actual :: json
  row_raw_response :: pystr

text \<open>
  The body of the evaluation loop of \<open>cmd_test\<close>, for one challenge:
  \<^verbatim>\<open>
      prompt = build_prompt(ch)
      llm_answer: list[str] = []
      response = ""
      try:
          response = run_llm(args.provider, args.model, SYSTEM_PROMPT, prompt)
          llm_answer = parse_llm_response(response)
          comparison = compare_answers(ch["correct_answer"], llm_answer)
      except Exception as e:
          comparison = {"correct": False, "expected_count": len(ch["correct_answer"]),
                        "actual_count": 0, "matching": 0,
                        "missing": ch["correct_answer"], "extra": []}
          response = f"ERROR: {e}"
      ...
      results.append({"id": ch["id"], "name": ch["name"], "difficulty": ch["difficulty"],
                      "expected": ch["correct_answer"], "actual": llm_answer,
                      "raw_response": response, **comparison})
  \<close>
  \<open>make_row\<close> is the appended dictionary and \<open>failed_comparison\<close> the one of the handler.
  A challenge without the key \<open>correct_answer\<close> raises \<open>KeyError\<close> in the \<open>try\<close> block at
  the latest and again in the handler, from where it leaves the loop. What is printed is
  not modelled.
\<close>

definition make_row :: "challenge \<Rightarrow> pystr list \<Rightarrow> json \<Rightarrow> pystr \<Rightarrow> verdict \<Rightarrow> row" where
  "make_row ch answer llm_answer response comparison =
     \<lparr> correct = correct comparison,
       expected_count = expected_count comparison,
       actual_count = actual_count comparison,
       matching = matching comparison,
       missing = missing comparison,
       extra = extra comparison,
       row_id = ch_id ch,
       row_name = ch_name ch,
       row_difficulty = difficulty ch,
       row_expected = answer,
       row_actual = llm_answer,
       row_raw_response = response \<rparr>"

definition failed_comparison :: "pystr list \<Rightarrow> verdict" where
  "failed_comparison answer =
     \<lparr> correct = False,
       expected_count = length answer,
       actual_count = 0,
       matching = 0,
       missing = answer,
       extra = [] \<rparr>"

definition test_challenge :: "'w env \<Rightarrow> args \<Rightarrow> challenge \<Rightarrow> 'w \<Rightarrow> (exn + row) \<times> 'w" where
  "test_challenge env args ch w =
     (let prompt = build_prompt ch
      in case run_llm env (arg_provider args) (arg_model args) SYSTEM_PROMPT prompt w of
           (r, w') \<Rightarrow>
             (case correct_answer ch of
                None \<Rightarrow> (Inl (KeyError (py ''correct_answer'')), w')
              | Some answer \<Rightarrow>
                  (case r of
                     Inl e \<Rightarrow>
                       (Inr (make_row ch answer (JArr []) (py ''ERROR: '' @ exn_str env e)
                               (failed_comparison answer)), w')
                   | Inr response \<Rightarrow>
                       (case parse_llm_response response of
                          Inl e \<Rightarrow>
                            (Inr (make_row ch answer (JArr []) (py ''ERROR: '' @ exn_str env e)
                                    (failed_comparison answer)), w')
                        | Inr llm_answer \<Rightarrow>
                            (case compare_answers_dyn answer llm_answer of
                               Inl e \<Rightarrow>
                                 (Inr (make_row ch answer llm_answer (py ''ERROR: '' @ exn_str env e)
                                         (failed_comparison answer)), w')
                             | Inr comparison \<Rightarrow>
                                 (Inr (make_row ch answer llm_answer response comparison), w'))))))"

text \<open>
  \<^verbatim>\<open>
      for ch in target:
          if not ch.get("correct_answer"):
              ch["correct_answer"] = verify_challenge(ch)
  \<close>
  The loop stores each resolved answer in its challenge; an exception leaves the loop.
\<close>

fun ensure_answers :: "'w env \<Rightarrow> challenge list \<Rightarrow> 'w \<Rightarrow> (exn + challenge list) \<times> 'w" where
  "ensure_answers env [] w = (Inr [], w)"
| "ensure_answers env (ch # chs) w =
     (if correct_answer ch = None \<or> correct_answer ch = Some [] then
        (case verify_challenge env ch w of
           (Inl e, w') \<Rightarrow> (Inl e, w')
         | (Inr answer, w') \<Rightarrow>
             (case ensure_answers env chs w' of
                (Inl e, w'') \<Rightarrow> (Inl e, w'')
              | (Inr chs', w'') \<Rightarrow> (Inr (ch\<lparr>correct_answer := Some answer\<rparr> # chs'), w'')))
      else
        (case ensure_answers env chs w of
           (Inl e, w') \<Rightarrow> (Inl e, w')
         | (Inr chs', w') \<Rightarrow> (Inr (ch # chs'), w')))"

text \<open>The evaluation loop, with \<open>results\<close> and \<open>passed\<close> as its state.\<close>

fun test_loop ::
  "'w env \<Rightarrow> args \<Rightarrow> challenge list \<Rightarrow> row list \<Rightarrow> nat \<Rightarrow> 'w \<Rightarrow> (exn + row list \<times> nat) \<times> 'w" where
  "test_loop env args [] results passed w = (Inr (results, passed), w)"
| "test_loop env args (ch # chs) results passed w =
     (case test_challenge env args ch w of
        (Inl e, w') \<Rightarrow> (Inl e, w')
      | (Inr r, w') \<Rightarrow>
          test_loop env args chs (results @ [r]) (if correct r then passed + 1 else passed) w')"

text \<open>
  \<^verbatim>\<open>
  def cmd_test(args):
      challenges = load_challenges()
      target = ([ch for ch in challenges if ch["id"] == args.challenge]
                if args.challenge else challenges)
      if not target:
          print(...); sys.exit(1)
      for ch in target: ...          # ensure_answers
      results = []; passed = 0
      for ch in target: ...          # test_loop
      print_summary(len(target), passed)
      if args.output: ...            # the report: model, provider, time, score, results
  \<close>
  The loaded challenges are an argument. The run ends with \<open>results\<close> and \<open>passed\<close>, with
  \<open>sys.exit(1)\<close>, or with an exception that nothing caught.
\<close>

datatype failure = SysExit int | Uncaught exn

record test_run =
  run_results :: "row list"
  run_passed :: nat

definition cmd_test ::
  "'w env \<Rightarrow> args \<Rightarrow> challenge list \<Rightarrow> 'w \<Rightarrow> (failure + test_run) \<times> 'w" where
  "cmd_test env args challenges w =
     (let target = (case arg_challenge args of
                      None \<Rightarrow> challenges
                    | Some c \<Rightarrow>
                        if c \<noteq> [] then filter (\<lambda>ch. ch_id ch = c) challenges else challenges)
      in if target = [] then (Inl (SysExit 1), w)
         else
           (case ensure_answers env target w of
              (Inl e, w') \<Rightarrow> (Inl (Uncaught e), w')
            | (Inr target', w') \<Rightarrow>
                (case test_loop env args target' [] 0 w' of
                   (Inl e, w'') \<Rightarrow> (Inl (Uncaught e), w'')
                 | (Inr (rs, p), w'') \<Rightarrow> (Inr \<lparr> run_results = rs, run_passed = p \<rparr>, w''))))"

section \<open>The words of the specification\<close>

text \<open>
  Response parsing. A fence line is a line that, trimmed, starts with the
  marker; the first block is what lies between the first fence line and the next one (or
  the end of the text); the bracket span runs from the first \<open>[\<close> to the last \<open>]\<close>.
\<close>

definition is_fence :: "pystr \<Rightarrow> bool" where
  "is_fence line = startswith (strip line) (py ''```'')"

definition first_block :: "pystr list \<Rightarrow> pystr list" where
  "first_block lines =
     takeWhile (\<lambda>l. \<not> is_fence l) (tl (dropWhile (\<lambda>l. \<not> is_fence l) lines))"

definition bracket_span :: "pystr \<Rightarrow> pystr" where
  "bracket_span text =
     (if str_find text (py ''['') \<noteq> - 1 \<and> str_rfind text (py '']'') \<noteq> - 1
      then str_slice text (str_find text (py ''['')) (str_rfind text (py '']'') + 1)
      else text)"

text \<open>
  Batch resolution: one entry for each challenge, in order, holding the
  answer of its resolution or the error text of the failure that its resolution raised.
\<close>

fun resolutions :: "'w env \<Rightarrow> challenge list \<Rightarrow> 'w \<Rightarrow> (pystr \<times> (pystr + pystr list)) list" where
  "resolutions env [] w = []"
| "resolutions env (ch # chs) w =
     (case verify_challenge env ch w of
        (Inr answer, w') \<Rightarrow> (ch_id ch, Inr answer) # resolutions env chs w'
      | (Inl e, w') \<Rightarrow> (ch_id ch, Inl (py ''ERROR: '' @ exn_str env e)) # resolutions env chs w')"

text \<open>The test run: the challenges that \<open>cmd_test\<close> selects, and the row of a caught failure.\<close>

definition selected :: "args \<Rightarrow> challenge list \<Rightarrow> challenge list" where
  "selected args challenges =
     (case arg_challenge args of
        None \<Rightarrow> challenges
      | Some c \<Rightarrow> if c \<noteq> [] then filter (\<lambda>ch. ch_id ch = c) challenges else challenges)"

definition failing_row :: "challenge \<Rightarrow> pystr list \<Rightarrow> json \<Rightarrow> pystr \<Rightarrow> row" where
  "failing_row ch answer llm_answer cause =
     \<lparr> correct = False,
       expected_count = length answer,
       actual_count = 0,
       matching = 0,
       missing = answer,
       extra = [],
       row_id = ch_id ch,
       row_name = ch_name ch,
       row_difficulty = difficulty ch,
       row_expected = answer,
       row_actual = llm_answer,
       row_raw_response = py ''ERROR: '' @ cause \<rparr>"

section \<open>Sample surroundings\<close>

text \<open>
  A world that counts the calls; an engine that refuses one rule; one provider that is out
  of reach and one whose first answer is a refusal and whose later answers are the number
  \<open>42\<close>; and a challenge with the fields that vary left open.
\<close>

definition counting_env :: "nat env" where
  "counting_env =
     \<lparr> expand_rrule = (\<lambda>rule dt dur tz u mc w.
          if rule = py ''FREQ=NEVER'' then (Inl (OtherError (py ''unsupported rule'')), Suc w)
          else (Inr [\<lparr> start = dt \<rparr>], Suc w)),
       openai_chat = (\<lambda>m s u w. (Inl (OtherError (py ''connection refused'')), Suc w)),
       anthropic_messages = (\<lambda>m s u w.
          if w = 0 then (Inr (py ''I do not know.''), Suc w) else (Inr (py ''42''), Suc w)),
       exn_str = (\<lambda>e. case e of
                       OtherError m \<Rightarrow> m
                     | ValueError m \<Rightarrow> m
                     | KeyError k \<Rightarrow> k
                     | JSONDecodeError \<Rightarrow> py ''Expecting value''
                     | TypeError \<Rightarrow> py ''object is not iterable''
                     | AttributeError \<Rightarrow> py ''object has no attribute'') \<rparr>"

definition sample_challenge :: "pystr \<Rightarrow> pystr \<Rightarrow> pystr option \<Rightarrow> pystr list option \<Rightarrow> challenge" where
  "sample_challenge i rule mode answer =
     \<lparr> ch_id = i, ch_name = py ''Sample'', question = py ''When?'', rrule = rule,
       dtstart = py ''2026-03-01T00:00:00'', timezone = py ''UTC'', duration_minutes = 60,
       until = None, exdates = None, max_count = Some 1, difficulty = py ''Easy'',
       verification_mode = mode, correct_answer = answer \<rparr>"

section \<open>Properties of the comparison\<close>

lemma sum_list_ones: "sum_list (map (\<lambda>(e, a). Suc 0) ps) = length ps"
  by (induction ps) auto

lemma matching_positions:
  "length (filter (\<lambda>(e, a). e = a) (zip xs ys)) =
     card {i. i < min (length xs) (length ys) \<and> xs ! i = ys ! i}"
proof -
  have "{i. i < length (zip xs ys) \<and> (\<lambda>(e, a). e = a) (zip xs ys ! i)} =
        {i. i < min (length xs) (length ys) \<and> xs ! i = ys ! i}"
    by auto
  then show ?thesis
    by (simp only: length_filter_conv_card)
qed

lemma compare_fields:
  "correct (compare_answers e a) = (map normalize_datetime e = map normalize_datetime a)"
  "expected_count (compare_answers e a) = length e"
  "actual_count (compare_answers e a) = length a"
  "matching (compare_answers e a) =
     length (filter (\<lambda>(x, y). x = y) (zip (map normalize_datetime e) (map normalize_datetime a)))"
  "missing (compare_answers e a) =
     filter (\<lambda>x. x \<notin> set (map normalize_datetime a)) (map normalize_datetime e)"
  "extra (compare_answers e a) =
     filter (\<lambda>x. x \<notin> set (map normalize_datetime e)) (map normalize_datetime a)"
  by (simp_all add: compare_answers_def Let_def sum_list_ones)

text \<open>
  Trimming removes a run of whitespace at each end and nothing else, and what is left
  neither starts nor ends with whitespace.
\<close>

lemma strip_decomp:
  "\<exists>pre post. s = pre @ strip s @ post \<and> (\<forall>c \<in> set pre. isspace c) \<and> (\<forall>c \<in> set post. isspace c)"
proof -
  let ?t = "dropWhile isspace s"
  have 1: "s = takeWhile isspace s @ ?t" by simp
  have 2: "rev ?t = takeWhile isspace (rev ?t) @ dropWhile isspace (rev ?t)" by simp
  have "?t = rev (dropWhile isspace (rev ?t)) @ rev (takeWhile isspace (rev ?t))"
    by (metis 2 rev_append rev_rev_ident)
  then have 3: "?t = strip s @ rev (takeWhile isspace (rev ?t))"
    by (simp add: strip_def)
  have "s = takeWhile isspace s @ strip s @ rev (takeWhile isspace (rev ?t))"
    using 1 3 by metis
  moreover have "\<forall>c \<in> set (takeWhile isspace s). isspace c"
    by (auto dest: set_takeWhileD)
  moreover have "\<forall>c \<in> set (rev (takeWhile isspace (rev ?t))). isspace c"
    by (auto dest: set_takeWhileD)
  ultimately show ?thesis by blast
qed

lemma strip_ends:
  assumes ne: "strip s \<noteq> []"
  shows "\<not> isspace (hd (strip s))" and "\<not> isspace (last (strip s))"
proof -
  let ?t = "dropWhile isspace s"
  let ?u = "dropWhile isspace (rev ?t)"
  have une: "?u \<noteq> []" using ne by (simp add: strip_def)
  then have l: "\<not> isspace (hd ?u)" by (rule hd_dropWhile)
  have "last (strip s) = hd ?u" using une by (simp add: strip_def last_rev)
  then show "\<not> isspace (last (strip s))" using l by simp
  have tne: "?t \<noteq> []" using une by (cases ?t) simp_all
  then have ht: "\<not> isspace (hd ?t)" by (rule hd_dropWhile)
  have "rev ?t = takeWhile isspace (rev ?t) @ ?u" by simp
  then have "last (rev ?t) = last ?u" using une by (metis last_appendR)
  then have "hd (strip s) = hd ?t" using une tne by (simp add: strip_def hd_rev last_rev)
  then show "\<not> isspace (hd (strip s))" using ht by simp
qed

lemma normalize_datetime_words:
  "normalize_datetime s =
     (if strip s \<noteq> [] \<and> last (strip s) = of_char CHR ''Z''
      then butlast (strip s) @ py ''+00:00'' else strip s)"
proof -
  have "endswith t (py ''Z'') \<longleftrightarrow> t \<noteq> [] \<and> last t = of_char CHR ''Z''" for t :: pystr
  proof (cases t rule: rev_cases)
    case Nil
    then show ?thesis by (simp add: endswith_def py_def)
  next
    case (snoc xs x)
    then show ?thesis by (auto simp: endswith_def py_def)
  qed
  then show ?thesis
    by (simp add: normalize_datetime_def Let_def butlast_conv_take)
qed

text \<open>
  Claim C3. \<open>compare_answers\<close> normalizes every element of both lists (\<open>strip\<close>, then a
  final \<open>Z\<close> rewritten to \<open>+00:00\<close>); \<open>correct\<close> is the equality of the normalized lists,
  \<open>matching\<close> is the number of positions \<open>i\<close> below the shorter length at which the normalized
  entries agree, \<open>missing\<close> lists the normalized expected entries that occur nowhere in the
  normalized actual list, and \<open>extra\<close> the normalized actual entries that occur nowhere in the
  normalized expected list. On expected \<open>["A","B","C"]\<close> and actual \<open>["A","C"]\<close> the verdict is
  \<open>matching = 1\<close>, \<open>missing = ["B"]\<close>, \<open>extra = []\<close>, \<open>correct = False\<close>.
\<close>

theorem compare_answers_refines_spec:
  "compare_answers expected actual =
     \<lparr> correct = (map normalize_datetime expected = map normalize_datetime actual),
       expected_count = length expected,
       actual_count = length actual,
       matching = card {i. i < min (length expected) (length actual) \<and>
                           normalize_datetime (expected ! i) = normalize_datetime (actual ! i)},
       missing = filter (\<lambda>e. e \<notin> set (map normalize_datetime actual)) (map normalize_datetime expected),
       extra = filter (\<lambda>a. a \<notin> set (map normalize_datetime expected)) (map normalize_datetime actual) \<rparr>
   \<and> normalize_datetime s =
       (if strip s \<noteq> [] \<and> last (strip s) = of_char CHR ''Z''
        then butlast (strip s) @ py ''+00:00'' else strip s)
   \<and> compare_answers [py ''A'', py ''B'', py ''C''] [py ''A'', py ''C''] =
     \<lparr> correct = False, expected_count = 3, actual_count = 2, matching = 1,
       missing = [py ''B''], extra = [] \<rparr>"
proof (intro conjI)
  have m: "matching (compare_answers expected actual) =
      card {i. i < min (length expected) (length actual) \<and>
               normalize_datetime (expected ! i) = normalize_datetime (actual ! i)}"
  proof -
    have "{i. i < min (length (map normalize_datetime expected)) (length (map normalize_datetime actual)) \<and>
              map normalize_datetime expected ! i = map normalize_datetime actual ! i} =
          {i. i < min (length expected) (length actual) \<and>
               normalize_datetime (expected ! i) = normalize_datetime (actual ! i)}"
      by auto
    then show ?thesis
      by (simp only: compare_fields matching_positions)
  qed
  show "compare_answers expected actual =
     \<lparr> correct = (map normalize_datetime expected = map normalize_datetime actual),
       expected_count = length expected,
       actual_count = length actual,
       matching = card {i. i < min (length expected) (length actual) \<and>
                           normalize_datetime (expected ! i) = normalize_datetime (actual ! i)},
       missing = filter (\<lambda>e. e \<notin> set (map normalize_datetime actual)) (map normalize_datetime expected),
       extra = filter (\<lambda>a. a \<notin> set (map normalize_datetime expected)) (map normalize_datetime actual) \<rparr>"
    by (rule verdict.equality) (simp_all add: compare_fields(1,2,3,5,6) m)
next
  show "normalize_datetime s =
       (if strip s \<noteq> [] \<and> last (strip s) = of_char CHR ''Z''
        then butlast (strip s) @ py ''+00:00'' else strip s)"
    by (rule normalize_datetime_words)
next
  show "compare_answers [py ''A'', py ''B'', py ''C''] [py ''A'', py ''C''] =
     \<lparr> correct = False, expected_count = 3, actual_count = 2, matching = 1,
       missing = [py ''B''], extra = [] \<rparr>"
    by (simp add: compare_answers_def normalize_datetime_def strip_def isspace_def endswith_def py_def)
qed

theorem compare_answers_refines_spec_witness:
  "correct (compare_answers [py ''  2026-01-01T00:00:00Z'', py ''X''] [py ''2026-01-01T00:00:00+00:00'']) = False \<and>
   expected_count (compare_answers [py ''  2026-01-01T00:00:00Z'', py ''X''] [py ''2026-01-01T00:00:00+00:00'']) = 2 \<and>
   actual_count (compare_answers [py ''  2026-01-01T00:00:00Z'', py ''X''] [py ''2026-01-01T00:00:00+00:00'']) = 1 \<and>
   missing (compare_answers [py ''  2026-01-01T00:00:00Z'', py ''X''] [py ''2026-01-01T00:00:00+00:00'']) = [py ''X''] \<and>
   extra (compare_answers [py ''  2026-01-01T00:00:00Z'', py ''X''] [py ''2026-01-01T00:00:00+00:00'']) = []"
proof -
  have n: "normalize_datetime (py ''  2026-01-01T00:00:00Z'') = py ''2026-01-01T00:00:00+00:00''"
    "normalize_datetime (py ''2026-01-01T00:00:00+00:00'') = py ''2026-01-01T00:00:00+00:00''"
    "normalize_datetime (py ''X'') = py ''X''"
    by (simp_all add: normalize_datetime_def strip_def isspace_def endswith_def py_def)
  have d: "py ''X'' \<noteq> py ''2026-01-01T00:00:00+00:00''"
    by (simp add: py_def)
  show ?thesis
    using d compare_answers_refines_spec
      [of "[py ''  2026-01-01T00:00:00Z'', py ''X'']" "[py ''2026-01-01T00:00:00+00:00'']"]
    by (simp add: n)
qed

text \<open>
  Claim C4. The verdict is order-sensitive: for a list \<open>S\<close> of at least two entries whose
  normalized forms are pairwise distinct, comparing \<open>S\<close> with its reversal gives
  \<open>correct = False\<close> although \<open>missing\<close> and \<open>extra\<close> are both empty; and \<open>correct\<close> holds
  exactly when the two normalized lists are equal element for element, in order.
\<close>

theorem compare_order_sensitive:
  "(2 \<le> length S \<and> distinct (map normalize_datetime S) \<longrightarrow>
      correct (compare_answers S (rev S)) = False \<and>
      missing (compare_answers S (rev S)) = [] \<and>
      extra (compare_answers S (rev S)) = [])
   \<and> (correct (compare_answers expected actual) \<longleftrightarrow>
        map normalize_datetime expected = map normalize_datetime actual)"
proof (intro conjI impI)
  assume h: "2 \<le> length S \<and> distinct (map normalize_datetime S)"
  let ?n = "map normalize_datetime S"
  have ne: "?n \<noteq> []" using h by auto
  have "hd ?n \<noteq> last ?n"
  proof
    assume eq: "hd ?n = last ?n"
    have "?n ! 0 = ?n ! (length ?n - 1)" using eq ne by (simp add: hd_conv_nth last_conv_nth)
    moreover have "0 < length ?n" "length ?n - 1 < length ?n" "0 \<noteq> length ?n - 1" using h by auto
    ultimately show False using h by (metis nth_eq_iff_index_eq)
  qed
  moreover have "hd (rev ?n) = last ?n" using ne by (simp add: hd_rev)
  ultimately have "?n \<noteq> rev ?n" by metis
  then show "correct (compare_answers S (rev S)) = False"
    by (simp add: compare_fields rev_map)
  show "missing (compare_answers S (rev S)) = []"
    by (simp add: compare_fields)
  show "extra (compare_answers S (rev S)) = []"
    by (simp add: compare_fields)
next
  show "correct (compare_answers expected actual) \<longleftrightarrow>
        map normalize_datetime expected = map normalize_datetime actual"
    by (simp add: compare_fields)
qed

theorem compare_order_sensitive_witness:
  "2 \<le> length [py ''A'', py ''B''] \<and> distinct (map normalize_datetime [py ''A'', py ''B'']) \<and>
   correct (compare_answers [py ''A'', py ''B''] [py ''B'', py ''A'']) = False \<and>
   missing (compare_answers [py ''A'', py ''B''] [py ''B'', py ''A'']) = [] \<and>
   extra (compare_answers [py ''A'', py ''B''] [py ''B'', py ''A'']) = []"
proof -
  have h: "2 \<le> length [py ''A'', py ''B''] \<and> distinct (map normalize_datetime [py ''A'', py ''B''])"
    by (simp add: normalize_datetime_def strip_def isspace_def endswith_def py_def)
  show ?thesis
    using h compare_order_sensitive [of "[py ''A'', py ''B'']"] by simp
qed

text \<open>
  Claim C6, as stated: permuting \<open>actual\<close> leaves \<open>missing\<close> and \<open>extra\<close> unchanged. \<open>extra\<close> is
  a list, filtered out of the normalized actual list in that list's order, so a permutation
  of \<open>actual\<close> permutes it: with nothing expected, \<open>["B","A"]\<close> and \<open>["A","B"]\<close> give
  different \<open>extra\<close> lists.
\<close>

theorem extra_order_counterexample:
  "mset [py ''B'', py ''A''] = mset [py ''A'', py ''B''] \<and>
   extra (compare_answers [] [py ''B'', py ''A'']) \<noteq> extra (compare_answers [] [py ''A'', py ''B''])"
  by (simp add: compare_fields normalize_datetime_def strip_def isspace_def endswith_def py_def)

text \<open>
  Claim C6, amended. For every permutation \<open>actual'\<close> of \<open>actual\<close>, \<open>missing\<close> is the same list
  and \<open>extra\<close> has the same entries with the same multiplicities (it is the same up to
  order).
\<close>

theorem diagnostics_order_independent:
  "mset actual' = mset actual \<Longrightarrow>
     missing (compare_answers expected actual') = missing (compare_answers expected actual) \<and>
     mset (extra (compare_answers expected actual')) = mset (extra (compare_answers expected actual)) \<and>
     set (extra (compare_answers expected actual')) = set (extra (compare_answers expected actual))"
proof -
  assume p: "mset actual' = mset actual"
  then have s: "set actual' = set actual" by (rule mset_eq_setD)
  have m: "mset (map normalize_datetime actual') = mset (map normalize_datetime actual)"
    using p by simp
  have 1: "missing (compare_answers expected actual') = missing (compare_answers expected actual)"
    using s by (simp add: compare_fields)
  have 2: "mset (extra (compare_answers expected actual')) = mset (extra (compare_answers expected actual))"
    unfolding compare_fields mset_filter using m by simp
  have 3: "set (extra (compare_answers expected actual')) = set (extra (compare_answers expected actual))"
    using 2 by (rule mset_eq_setD)
  show ?thesis using 1 2 3 by simp
qed

theorem diagnostics_order_independent_witness:
  "mset [py ''B'', py ''A''] = mset [py ''A'', py ''B''] \<and>
   missing (compare_answers [py ''C''] [py ''B'', py ''A'']) = missing (compare_answers [py ''C''] [py ''A'', py ''B'']) \<and>
   mset (extra (compare_answers [py ''C''] [py ''B'', py ''A''])) = mset (extra (compare_answers [py ''C''] [py ''A'', py ''B'']))"
proof -
  have h: "mset [py ''B'', py ''A''] = mset [py ''A'', py ''B'']" by simp
  show ?thesis
    using h diagnostics_order_independent [OF h, of "[py ''C'']"] by simp
qed

text \<open>
  Claim C7. \<open>matching\<close> is at most the smaller of the two lengths (which are the
  \<open>expected_count\<close> and \<open>actual_count\<close> of the verdict), and a verdict with \<open>correct\<close> has
  empty \<open>missing\<close> and \<open>extra\<close> and equal lengths.
\<close>

theorem verdict_invariants:
  "matching (compare_answers expected actual) \<le> min (length expected) (length actual) \<and>
   matching (compare_answers expected actual)
     \<le> min (expected_count (compare_answers expected actual)) (actual_count (compare_answers expected actual)) \<and>
   (correct (compare_answers expected actual) \<longrightarrow>
      missing (compare_answers expected actual) = [] \<and>
      extra (compare_answers expected actual) = [] \<and>
      length expected = length actual \<and>
      expected_count (compare_answers expected actual) = actual_count (compare_answers expected actual))"
proof -
  have "length (filter (\<lambda>(x, y). x = y) (zip (map normalize_datetime expected) (map normalize_datetime actual)))
          \<le> length (zip (map normalize_datetime expected) (map normalize_datetime actual))"
    by (rule length_filter_le)
  then have a: "matching (compare_answers expected actual) \<le> min (length expected) (length actual)"
    by (simp add: compare_fields)
  have b: "correct (compare_answers expected actual) \<longrightarrow>
      missing (compare_answers expected actual) = [] \<and>
      extra (compare_answers expected actual) = [] \<and>
      length expected = length actual"
  proof
    assume "correct (compare_answers expected actual)"
    then have eq: "map normalize_datetime expected = map normalize_datetime actual"
      by (simp add: compare_fields)
    then have "length expected = length actual" by (rule map_eq_imp_length_eq)
    moreover have "missing (compare_answers expected actual) = []"
      unfolding compare_fields eq by simp
    moreover have "extra (compare_answers expected actual) = []"
      unfolding compare_fields eq by simp
    ultimately show "missing (compare_answers expected actual) = [] \<and>
      extra (compare_answers expected actual) = [] \<and> length expected = length actual"
      by simp
  qed
  show ?thesis using a b by (simp add: compare_fields)
qed

theorem verdict_invariants_witness:
  "correct (compare_answers [py ''A Z''] [py '' A +00:00'']) \<and>
   matching (compare_answers [py ''A Z''] [py '' A +00:00'']) \<le> 1 \<and>
   missing (compare_answers [py ''A Z''] [py '' A +00:00'']) = [] \<and>
   extra (compare_answers [py ''A Z''] [py '' A +00:00'']) = []"
proof -
  have h: "correct (compare_answers [py ''A Z''] [py '' A +00:00''])"
    by (simp add: compare_fields normalize_datetime_def strip_def isspace_def endswith_def py_def)
  show ?thesis
    using h verdict_invariants [of "[py ''A Z'']" "[py '' A +00:00'']"] by simp
qed

section \<open>Properties of the response parser\<close>

lemma fence_loop_in_block:
  "fence_loop lines True acc = acc @ takeWhile (\<lambda>l. \<not> is_fence l) lines"
  by (induction lines arbitrary: acc) (simp_all add: is_fence_def)

lemma fence_loop_first_block:
  "fence_loop lines False [] = first_block lines"
  by (induction lines) (simp_all add: is_fence_def first_block_def fence_loop_in_block)

lemma parse_pipeline:
  "parse_llm_response response =
     json_loads (bracket_span
       (if contains (strip response) (py ''```'') \<and> first_block (str_split (strip response) 10) \<noteq> []
        then strip (str_join [10] (first_block (str_split (strip response) 10)))
        else strip response))"
  by (simp add: parse_llm_response_def Let_def bracket_span_def fence_loop_first_block)

text \<open>The runs of the parser that the claims name, one step at a time.\<close>

lemma bare_number_steps:
  "strip (py ''42'') = py ''42''"
  "\<not> contains (py ''42'') (py ''```'')"
  "str_find (py ''42'') (py ''['') = - 1"
  "str_rfind (py ''42'') (py '']'') = - 1"
  "json_loads (py ''42'') = Inr (JNum (py ''42''))"
  by (simp_all add: strip_def isspace_def startswith_def str_find_def str_rfind_def py_def
        json_loads_def json_ws_def scan_atom_def match_number_def match_fraction_def
        match_exponent_def is_digit_def)

lemma bare_number_parse: "parse_llm_response (py ''42'') = Inr (JNum (py ''42''))"
  by (simp only: parse_pipeline bracket_span_def bare_number_steps if_False simp_thms)

lemma object_steps:
  "strip (py ''{\"2026-03-01T07:00:00+00:00\": 0}'') = py ''{\"2026-03-01T07:00:00+00:00\": 0}''"
  "\<not> contains (py ''{\"2026-03-01T07:00:00+00:00\": 0}'') (py ''```'')"
  "str_find (py ''{\"2026-03-01T07:00:00+00:00\": 0}'') (py ''['') = - 1"
  "json_loads (py ''{\"2026-03-01T07:00:00+00:00\": 0}'')
     = Inr (JObj [(py ''2026-03-01T07:00:00+00:00'', JNum (py ''0''))])"
  by (simp_all add: strip_def isspace_def startswith_def str_find_def py_def
        json_loads_def json_ws_def scan_atom_def match_number_def match_fraction_def
        match_exponent_def is_digit_def)

lemma object_compares_correct:
  "compare_answers_dyn [py ''2026-03-01T07:00:00+00:00'']
     (JObj [(py ''2026-03-01T07:00:00+00:00'', JNum (py ''0''))])
   = Inr (compare_answers [py ''2026-03-01T07:00:00+00:00''] [py ''2026-03-01T07:00:00+00:00''])"
  by (simp add: compare_answers_dyn_def)

lemma scenario_B_steps:
  "strip (py ''Here you go:\<newline>```json\<newline>[\"2026-03-01T07:00:00Z\"]\<newline>```\<newline>Hope that helps!'')
     = py ''Here you go:\<newline>```json\<newline>[\"2026-03-01T07:00:00Z\"]\<newline>```\<newline>Hope that helps!''"
  "contains (py ''Here you go:\<newline>```json\<newline>[\"2026-03-01T07:00:00Z\"]\<newline>```\<newline>Hope that helps!'') (py ''```'')"
  "str_split (py ''Here you go:\<newline>```json\<newline>[\"2026-03-01T07:00:00Z\"]\<newline>```\<newline>Hope that helps!'') 10
     = [py ''Here you go:'', py ''```json'', py ''[\"2026-03-01T07:00:00Z\"]'', py ''```'', py ''Hope that helps!'']"
  "first_block [py ''Here you go:'', py ''```json'', py ''[\"2026-03-01T07:00:00Z\"]'', py ''```'', py ''Hope that helps!'']
     = [py ''[\"2026-03-01T07:00:00Z\"]'']"
  "strip (str_join [10] [py ''[\"2026-03-01T07:00:00Z\"]'']) = py ''[\"2026-03-01T07:00:00Z\"]''"
  "bracket_span (py ''[\"2026-03-01T07:00:00Z\"]'') = py ''[\"2026-03-01T07:00:00Z\"]''"
  "json_loads (py ''[\"2026-03-01T07:00:00Z\"]'') = Inr (JArr [JStr (py ''2026-03-01T07:00:00Z'')])"
  by (simp_all add: strip_def isspace_def startswith_def str_split_def first_block_def is_fence_def
        bracket_span_def str_find_def str_rfind_def str_slice_def slice_index_def json_loads_def
        json_ws_def py_def)

lemma scenario_B_parse:
  "parse_llm_response (py ''Here you go:\<newline>```json\<newline>[\"2026-03-01T07:00:00Z\"]\<newline>```\<newline>Hope that helps!'')
     = Inr (JArr [JStr (py ''2026-03-01T07:00:00Z'')])"
  by (simp only: parse_pipeline scenario_B_steps if_True simp_thms list.simps)

lemma empty_block_steps:
  "strip (py ''```\<newline>```\<newline>[\"x\"]'') = py ''```\<newline>```\<newline>[\"x\"]''"
  "contains (py ''```\<newline>```\<newline>[\"x\"]'') (py ''```'')"
  "str_split (py ''```\<newline>```\<newline>[\"x\"]'') 10 = [py ''```'', py ''```'', py ''[\"x\"]'']"
  "first_block [py ''```'', py ''```'', py ''[\"x\"]''] = []"
  "bracket_span (py ''```\<newline>```\<newline>[\"x\"]'') = py ''[\"x\"]''"
  "json_loads (py ''[\"x\"]'') = Inr (JArr [JStr (py ''x'')])"
  "strip (str_join [10] []) = []"
  "bracket_span [] = []"
  "json_loads [] = Inl JSONDecodeError"
  by (simp_all add: strip_def isspace_def startswith_def str_split_def first_block_def is_fence_def
        bracket_span_def str_find_def str_rfind_def str_slice_def slice_index_def json_loads_def
        json_ws_def py_def)

lemma str_items_strings: "str_items (map JStr xs) = Inr xs"
  by (induction xs) simp_all

lemma compare_answers_dyn_strings:
  "compare_answers_dyn expected (JArr (map JStr actual)) = Inr (compare_answers expected actual)"
  by (simp add: compare_answers_dyn_def str_items_strings)

text \<open>
  Claim C5. \<open>parse_llm_response\<close> fails whenever the recovered span is not valid JSON or
  is not an array of strings; a text with no array brackets fails to parse. The code hands
  the span to the decoder and returns what the decoder returns: the response \<open>42\<close> has no
  bracket, is valid JSON, and comes back as the number \<open>42\<close>, with no failure. A response
  that is a JSON object comes back as a dictionary, whose keys the comparison then reads as
  the answer: an object with the expected timestamp as its only key is graded correct.
\<close>

theorem parse_returns_non_array:
  "str_find (strip (py ''42'')) (py ''['') = - 1 \<and>
   str_rfind (strip (py ''42'')) (py '']'') = - 1 \<and>
   parse_llm_response (py ''42'') = Inr (JNum (py ''42'')) \<and>
   parse_llm_response (py ''{\"2026-03-01T07:00:00+00:00\": 0}'')
     = Inr (JObj [(py ''2026-03-01T07:00:00+00:00'', JNum (py ''0''))]) \<and>
   map_sum id correct
     (compare_answers_dyn [py ''2026-03-01T07:00:00+00:00'']
        (JObj [(py ''2026-03-01T07:00:00+00:00'', JNum (py ''0''))]))
     = Inr True"
proof (intro conjI)
  show "str_find (strip (py ''42'')) (py ''['') = - 1"
    by (simp only: bare_number_steps)
  show "str_rfind (strip (py ''42'')) (py '']'') = - 1"
    by (simp only: bare_number_steps)
  show "parse_llm_response (py ''42'') = Inr (JNum (py ''42''))"
    by (rule bare_number_parse)
  show "parse_llm_response (py ''{\"2026-03-01T07:00:00+00:00\": 0}'')
     = Inr (JObj [(py ''2026-03-01T07:00:00+00:00'', JNum (py ''0''))])"
    by (simp only: parse_pipeline bracket_span_def object_steps if_False simp_thms)
  show "map_sum id correct
     (compare_answers_dyn [py ''2026-03-01T07:00:00+00:00'']
        (JObj [(py ''2026-03-01T07:00:00+00:00'', JNum (py ''0''))]))
     = Inr True"
    by (simp add: object_compares_correct compare_fields)
qed

theorem parse_returns_non_array_witness:
  "\<exists>v. parse_llm_response (py ''42'') = Inr v \<and> v \<noteq> JArr []"
  using parse_returns_non_array by simp

text \<open>
  Claim C9, as stated: whenever the response contains a fence marker, only the content of
  the first fenced block is parsed. On a response whose first block is empty the code keeps
  the whole text instead, and the array it returns stands after the block: the block's own
  content, which is empty, does not parse.
\<close>

theorem first_block_only_counterexample:
  "contains (strip (py ''```\<newline>```\<newline>[\"x\"]'')) (py ''```'') \<and>
   parse_llm_response (py ''```\<newline>```\<newline>[\"x\"]'') = Inr (JArr [JStr (py ''x'')]) \<and>
   json_loads (bracket_span (strip (str_join [10]
     (first_block (str_split (strip (py ''```\<newline>```\<newline>[\"x\"]'')) 10))))) = Inl JSONDecodeError"
  by (simp only: parse_pipeline empty_block_steps if_False simp_thms)

text \<open>
  Claim C9, amended. When the trimmed response contains the marker and its first fenced
  block (the lines between the first fence line and the next) has at least one line, the
  parser keeps only those lines, joined and trimmed, then slices from the first \<open>[\<close> to
  the last \<open>]\<close> and decodes; otherwise it slices and decodes the whole trimmed response.
  The response of scenario B parses to \<open>["2026-03-01T07:00:00Z"]\<close>, which compares as
  correct against the expected \<open>["2026-03-01T07:00:00+00:00"]\<close>.
\<close>

theorem parse_first_block:
  "parse_llm_response response =
     (if contains (strip response) (py ''```'') \<and> first_block (str_split (strip response) 10) \<noteq> []
      then json_loads (bracket_span (strip (str_join [10] (first_block (str_split (strip response) 10)))))
      else json_loads (bracket_span (strip response)))
   \<and> parse_llm_response
       (py ''Here you go:\<newline>```json\<newline>[\"2026-03-01T07:00:00Z\"]\<newline>```\<newline>Hope that helps!'')
     = Inr (JArr [JStr (py ''2026-03-01T07:00:00Z'')])
   \<and> map_sum id correct
       (compare_answers_dyn [py ''2026-03-01T07:00:00+00:00''] (JArr [JStr (py ''2026-03-01T07:00:00Z'')]))
     = Inr True"
proof (intro conjI)
  show "parse_llm_response response =
     (if contains (strip response) (py ''```'') \<and> first_block (str_split (strip response) 10) \<noteq> []
      then json_loads (bracket_span (strip (str_join [10] (first_block (str_split (strip response) 10)))))
      else json_loads (bracket_span (strip response)))"
    by (simp add: parse_pipeline)
  show "parse_llm_response
       (py ''Here you go:\<newline>```json\<newline>[\"2026-03-01T07:00:00Z\"]\<newline>```\<newline>Hope that helps!'')
     = Inr (JArr [JStr (py ''2026-03-01T07:00:00Z'')])"
    by (rule scenario_B_parse)
  have "correct (compare_answers [py ''2026-03-01T07:00:00+00:00''] [py ''2026-03-01T07:00:00Z''])"
    by (simp add: compare_fields normalize_datetime_def strip_def isspace_def endswith_def py_def)
  then show "map_sum id correct
       (compare_answers_dyn [py ''2026-03-01T07:00:00+00:00''] (JArr [JStr (py ''2026-03-01T07:00:00Z'')]))
     = Inr True"
    using compare_answers_dyn_strings [of "[py ''2026-03-01T07:00:00+00:00'']" "[py ''2026-03-01T07:00:00Z'']"]
    by simp
qed

theorem parse_first_block_witness:
  "parse_llm_response (py ''```\<newline>```\<newline>[\"x\"]'') = Inr (JArr [JStr (py ''x'')])"
  using parse_first_block [of "py ''```\<newline>```\<newline>[\"x\"]''"]
  by (simp only: empty_block_steps if_False simp_thms)

text \<open>
  Claim C10. On every pair of lists of strings, whatever the strings hold, the comparison
  raises nothing and returns a verdict, whose six fields are those of \<open>compare_answers\<close>.
\<close>

theorem compare_answers_total:
  "compare_answers_dyn expected (JArr (map JStr actual)) =
     Inr \<lparr> correct = correct (compare_answers expected actual),
           expected_count = length expected,
           actual_count = length actual,
           matching = matching (compare_answers expected actual),
           missing = missing (compare_answers expected actual),
           extra = extra (compare_answers expected actual) \<rparr>"
  by (simp add: compare_answers_dyn_strings compare_answers_def Let_def)

theorem compare_answers_total_witness:
  "\<exists>v. compare_answers_dyn [py ''not a timestamp'', []] (JArr [JStr [], JStr (py ''  Z '')]) = Inr v \<and>
       expected_count v = 2 \<and> actual_count v = 2"
  using compare_answers_total [of "[py ''not a timestamp'', []]" "[[], py ''  Z '']"]
  by simp

section \<open>Properties of ground-truth resolution\<close>

lemma update_fresh_key: "k \<notin> fst ` set al \<Longrightarrow> AList.update k v al = al @ [(k, v)]"
  by (induction al) auto

lemma resolutions_keys: "map fst (resolutions env chs w) = map ch_id chs"
  by (induction chs arbitrary: w) (auto split: prod.splits sum.splits)

lemma verify_all_loop_resolutions:
  "distinct (map ch_id chs) \<Longrightarrow> set (map ch_id chs) \<inter> fst ` set acc = {} \<Longrightarrow>
     fst (verify_all_loop env chs acc w) = acc @ resolutions env chs w"
proof (induction chs arbitrary: acc w)
  case Nil
  then show ?case by simp
next
  case (Cons ch chs)
  have fresh: "ch_id ch \<notin> fst ` set acc" using Cons.prems(2) by auto
  have d: "distinct (map ch_id chs)" using Cons.prems(1) by simp
  have n: "ch_id ch \<notin> set (map ch_id chs)" using Cons.prems(1) by simp
  obtain r w' where v: "verify_challenge env ch w = (r, w')" by (cases "verify_challenge env ch w")
  have step: "set (map ch_id chs) \<inter> fst ` set (acc @ [(ch_id ch, x)]) = {}" for x
    using Cons.prems(2) n by auto
  show ?case
  proof (cases r)
    case (Inl e)
    then show ?thesis
      using v fresh Cons.IH [OF d step] by (simp add: update_fresh_key)
  next
    case (Inr answer)
    then show ?thesis
      using v fresh Cons.IH [OF d step] by (simp add: update_fresh_key)
  qed
qed

text \<open>
  Claim C2. For challenges with pairwise distinct identifiers, \<open>verify_all\<close> returns one
  entry for each challenge, in order: the resolved start times, or, when the resolution of
  that challenge raised, the text \<open>ERROR:\<close> followed by the message of the exception; the
  challenges after a failing one are still resolved. In a batch of three whose second
  resolution raises there are exactly three entries, the second an error and the first and
  third resolved.
\<close>

theorem verify_all_isolates_failures:
  "(distinct (map ch_id challenges) \<longrightarrow>
      fst (verify_all env challenges w) = resolutions env challenges w \<and>
      map fst (fst (verify_all env challenges w)) = map ch_id challenges \<and>
      length (fst (verify_all env challenges w)) = length challenges)
   \<and> (distinct [ch_id c1, ch_id c2, ch_id c3] \<and>
       verify_challenge env c1 w = (Inr a1, w1) \<and>
       verify_challenge env c2 w1 = (Inl e, w2) \<and>
       verify_challenge env c3 w2 = (Inr a3, w3) \<longrightarrow>
      fst (verify_all env [c1, c2, c3] w) =
        [(ch_id c1, Inr a1), (ch_id c2, Inl (py ''ERROR: '' @ exn_str env e)), (ch_id c3, Inr a3)])"
proof (intro conjI impI)
  assume d: "distinct (map ch_id challenges)"
  have r: "fst (verify_all env challenges w) = resolutions env challenges w"
    using verify_all_loop_resolutions [OF d, of "[]" env w] by (simp add: verify_all_def)
  show "fst (verify_all env challenges w) = resolutions env challenges w" by (rule r)
  show k: "map fst (fst (verify_all env challenges w)) = map ch_id challenges"
    by (simp only: r resolutions_keys)
  have "length (map fst (fst (verify_all env challenges w))) = length (map ch_id challenges)"
    by (simp only: k)
  then show "length (fst (verify_all env challenges w)) = length challenges" by simp
next
  assume h: "distinct [ch_id c1, ch_id c2, ch_id c3] \<and>
       verify_challenge env c1 w = (Inr a1, w1) \<and>
       verify_challenge env c2 w1 = (Inl e, w2) \<and>
       verify_challenge env c3 w2 = (Inr a3, w3)"
  then have d: "distinct (map ch_id [c1, c2, c3])" by simp
  have "fst (verify_all env [c1, c2, c3] w) = resolutions env [c1, c2, c3] w"
    using verify_all_loop_resolutions [OF d, of "[]" env w] by (simp add: verify_all_def)
  then show "fst (verify_all env [c1, c2, c3] w) =
        [(ch_id c1, Inr a1), (ch_id c2, Inl (py ''ERROR: '' @ exn_str env e)), (ch_id c3, Inr a3)]"
    using h by simp
qed

theorem verify_all_isolates_failures_witness:
  "fst (verify_all counting_env
          [sample_challenge (py ''a'') (py ''FREQ=DAILY'') None None,
           sample_challenge (py ''b'') (py ''FREQ=NEVER'') None None,
           sample_challenge (py ''c'') (py ''FREQ=DAILY'') (Some (py ''hardcoded''))
             (Some [py ''2026-03-01T07:00:00+00:00''])] 0) =
     [(py ''a'', Inr [py ''2026-03-01T00:00:00'']),
      (py ''b'', Inl (py ''ERROR: unsupported rule'')),
      (py ''c'', Inr [py ''2026-03-01T07:00:00+00:00''])]
   \<and> length (fst (verify_all counting_env
          [sample_challenge (py ''a'') (py ''FREQ=DAILY'') None None,
           sample_challenge (py ''b'') (py ''FREQ=NEVER'') None None,
           sample_challenge (py ''c'') (py ''FREQ=DAILY'') (Some (py ''hardcoded''))
             (Some [py ''2026-03-01T07:00:00+00:00''])] 0)) = 3"
proof -
  let ?c1 = "sample_challenge (py ''a'') (py ''FREQ=DAILY'') None None"
  let ?c2 = "sample_challenge (py ''b'') (py ''FREQ=NEVER'') None None"
  let ?c3 = "sample_challenge (py ''c'') (py ''FREQ=DAILY'') (Some (py ''hardcoded''))
               (Some [py ''2026-03-01T07:00:00+00:00''])"
  have ids: "ch_id ?c1 = py ''a''" "ch_id ?c2 = py ''b''" "ch_id ?c3 = py ''c''"
    by (simp_all add: sample_challenge_def)
  have d: "distinct (map ch_id [?c1, ?c2, ?c3])"
    by (simp add: sample_challenge_def py_def)
  have h: "distinct [ch_id ?c1, ch_id ?c2, ch_id ?c3] \<and>
       verify_challenge counting_env ?c1 0 = (Inr [py ''2026-03-01T00:00:00''], 1) \<and>
       verify_challenge counting_env ?c2 1 = (Inl (OtherError (py ''unsupported rule'')), 2) \<and>
       verify_challenge counting_env ?c3 2 = (Inr [py ''2026-03-01T07:00:00+00:00''], 2)"
    by (simp add: verify_challenge_def counting_env_def sample_challenge_def py_def)
  note t = verify_all_isolates_failures
      [of "[?c1, ?c2, ?c3]" counting_env 0 ?c1 ?c2 ?c3 "[py ''2026-03-01T00:00:00'']" 1
          "OtherError (py ''unsupported rule'')" 2 "[py ''2026-03-01T07:00:00+00:00'']" 2]
  have r: "fst (verify_all counting_env [?c1, ?c2, ?c3] 0) =
        [(ch_id ?c1, Inr [py ''2026-03-01T00:00:00'']),
         (ch_id ?c2, Inl (py ''ERROR: '' @ exn_str counting_env (OtherError (py ''unsupported rule'')))),
         (ch_id ?c3, Inr [py ''2026-03-01T07:00:00+00:00''])]"
    using conjunct2 [OF t, THEN mp, OF h] .
  have l: "length (fst (verify_all counting_env [?c1, ?c2, ?c3] 0)) = length [?c1, ?c2, ?c3]"
    using conjunct2 [OF conjunct2 [OF conjunct1 [OF t, THEN mp, OF d]]] .
  have m: "py ''ERROR: '' @ exn_str counting_env (OtherError (py ''unsupported rule''))
             = py ''ERROR: unsupported rule''"
    by (simp add: counting_env_def py_def)
  have a: "fst (verify_all counting_env [?c1, ?c2, ?c3] 0) =
     [(py ''a'', Inr [py ''2026-03-01T00:00:00'']),
      (py ''b'', Inl (py ''ERROR: unsupported rule'')),
      (py ''c'', Inr [py ''2026-03-01T07:00:00+00:00''])]"
    by (simp only: r ids m)
  have b: "length (fst (verify_all counting_env [?c1, ?c2, ?c3] 0)) = 3"
    using l by simp
  show ?thesis by (intro conjI) (rule a, rule b)
qed

text \<open>
  Claim C8. A challenge whose \<open>verification_mode\<close> is \<open>hardcoded\<close> and which carries a
  stored answer resolves to that answer, unchanged, whatever the Truth Engine is, and the
  state of the outside world is the one before the call: the engine is not called.
\<close>

theorem hardcoded_answer_unchanged:
  "verification_mode ch = Some (py ''hardcoded'') \<Longrightarrow> correct_answer ch = Some answer \<Longrightarrow>
     verify_challenge env ch w = (Inr answer, w)"
  by (simp add: verify_challenge_def)

theorem hardcoded_answer_unchanged_witness:
  "verify_challenge counting_env
     (sample_challenge (py ''exdate'') (py ''FREQ=NEVER'') (Some (py ''hardcoded''))
        (Some [py ''2026-03-01T07:00:00+00:00''])) 0
   = (Inr [py ''2026-03-01T07:00:00+00:00''], 0)"
proof -
  have "verification_mode (sample_challenge (py ''exdate'') (py ''FREQ=NEVER'') (Some (py ''hardcoded''))
        (Some [py ''2026-03-01T07:00:00+00:00''])) = Some (py ''hardcoded'')"
    and "correct_answer (sample_challenge (py ''exdate'') (py ''FREQ=NEVER'') (Some (py ''hardcoded''))
        (Some [py ''2026-03-01T07:00:00+00:00''])) = Some [py ''2026-03-01T07:00:00+00:00'']"
    by (simp_all add: sample_challenge_def)
  then show ?thesis by (rule hardcoded_answer_unchanged)
qed

section \<open>Properties of the test run\<close>

lemma make_failing_row:
  "make_row ch answer v (py ''ERROR: '' @ cause) (failed_comparison answer) = failing_row ch answer v cause"
  by (simp add: make_row_def failed_comparison_def failing_row_def)

lemma ensure_answers_populated:
  "ensure_answers env chs w = (Inr chs', w') \<Longrightarrow>
     map ch_id chs' = map ch_id chs \<and> (\<forall>ch \<in> set chs'. correct_answer ch \<noteq> None)"
proof (induction chs arbitrary: chs' w w')
  case Nil
  then show ?case by simp
next
  case (Cons ch chs)
  show ?case
  proof (cases "correct_answer ch = None \<or> correct_answer ch = Some []")
    case True
    then obtain answer w1 where v: "verify_challenge env ch w = (Inr answer, w1)"
      using Cons.prems by (auto split: prod.splits sum.splits)
    then obtain rest where r: "ensure_answers env chs w1 = (Inr rest, w')"
      and c: "chs' = ch\<lparr>correct_answer := Some answer\<rparr> # rest"
      using Cons.prems True by (auto split: prod.splits sum.splits)
    show ?thesis using Cons.IH [OF r] c by simp
  next
    case False
    then obtain rest where r: "ensure_answers env chs w = (Inr rest, w')" and c: "chs' = ch # rest"
      using Cons.prems by (auto split: prod.splits sum.splits)
    show ?thesis using Cons.IH [OF r] c False by simp
  qed
qed

lemma test_challenge_returns:
  "correct_answer ch \<noteq> None \<Longrightarrow>
     \<exists>r w'. test_challenge env args ch w = (Inr r, w') \<and> row_id r = ch_id ch"
  by (auto simp: test_challenge_def Let_def make_row_def split: prod.splits sum.splits)

lemma test_loop_rows:
  "\<forall>ch \<in> set chs. correct_answer ch \<noteq> None \<Longrightarrow>
     \<exists>rs w'. test_loop env args chs acc n w = (Inr (acc @ rs, n + length (filter correct rs)), w') \<and>
       map row_id rs = map ch_id chs \<and>
       (\<forall>r \<in> set rs. \<exists>ch \<in> set chs. \<exists>w0 w1. test_challenge env args ch w0 = (Inr r, w1))"
proof (induction chs arbitrary: acc n w)
  case Nil
  then show ?case by simp
next
  case (Cons ch chs)
  from Cons.prems have "correct_answer ch \<noteq> None" by simp
  then obtain r w1 where t: "test_challenge env args ch w = (Inr r, w1)" and i: "row_id r = ch_id ch"
    using test_challenge_returns [of ch env args w] by auto
  from Cons.prems have "\<forall>c \<in> set chs. correct_answer c \<noteq> None" by simp
  from Cons.IH [OF this, of "acc @ [r]" "if correct r then n + 1 else n" w1]
  obtain rs w' where
    l: "test_loop env args chs (acc @ [r]) (if correct r then n + 1 else n) w1 =
          (Inr ((acc @ [r]) @ rs, (if correct r then n + 1 else n) + length (filter correct rs)), w')"
    and m: "map row_id rs = map ch_id chs"
    and o: "\<forall>x \<in> set rs. \<exists>c \<in> set chs. \<exists>w0 w1. test_challenge env args c w0 = (Inr x, w1)"
    by blast
  have "test_loop env args (ch # chs) acc n w =
          (Inr (acc @ (r # rs), n + length (filter correct (r # rs))), w')"
    using t l by simp
  moreover have "map row_id (r # rs) = map ch_id (ch # chs)" using i m by simp
  moreover have "\<forall>x \<in> set (r # rs). \<exists>c \<in> set (ch # chs). \<exists>w0 w1. test_challenge env args c w0 = (Inr x, w1)"
    using t o by auto
  ultimately show ?case by blast
qed

lemma cmd_test_rows:
  assumes ne: "selected args challenges \<noteq> []"
    and en: "ensure_answers env (selected args challenges) w = (Inr target', w1)"
  shows "\<exists>run w2. cmd_test env args challenges w = (Inr run, w2) \<and>
           length (run_results run) = length (selected args challenges) \<and>
           map row_id (run_results run) = map ch_id (selected args challenges) \<and>
           run_passed run = length (filter correct (run_results run)) \<and>
           (\<forall>r \<in> set (run_results run). \<exists>ch \<in> set target'. \<exists>w0 w3.
               test_challenge env args ch w0 = (Inr r, w3))"
proof -
  from ensure_answers_populated [OF en]
  have ids: "map ch_id target' = map ch_id (selected args challenges)"
    and pop: "\<forall>ch \<in> set target'. correct_answer ch \<noteq> None" by simp_all
  from test_loop_rows [OF pop, of env args "[]" 0 w1]
  obtain rs w2 where l: "test_loop env args target' [] 0 w1 = (Inr (rs, length (filter correct rs)), w2)"
    and m: "map row_id rs = map ch_id target'"
    and o: "\<forall>r \<in> set rs. \<exists>ch \<in> set target'. \<exists>w0 w3. test_challenge env args ch w0 = (Inr r, w3)"
    by auto
  have c: "cmd_test env args challenges w =
             (Inr \<lparr> run_results = rs, run_passed = length (filter correct rs) \<rparr>, w2)"
    using ne en l by (simp add: cmd_test_def selected_def [symmetric])
  have "length (map row_id rs) = length (map ch_id (selected args challenges))"
    using m ids by simp
  then have len: "length rs = length (selected args challenges)" by simp
  show ?thesis using c len m ids o by simp
qed

text \<open>
  Claim C1, amended. In a test run whose selected challenges all carry a ground truth or
  resolve to one, the run returns one row for each selected challenge, in order, each the
  row of the evaluation of its challenge, and \<open>passed\<close> counts the correct rows. For a
  challenge with ground truth \<open>answer\<close>, a failure of the agent invocation or of the
  response parsing gives the failing row: \<open>correct = False\<close>, \<open>expected_count\<close> the length of
  \<open>answer\<close>, \<open>actual_count = 0\<close>, \<open>matching = 0\<close>, \<open>missing = answer\<close>, \<open>extra = []\<close>,
  \<open>actual = []\<close> and \<open>raw_response\<close> the text \<open>ERROR:\<close> with the message of the failure. A
  failure of the comparison gives the same row with the parsed value as \<open>actual\<close>.
\<close>

theorem test_run_isolates_failures:
  "(selected args challenges \<noteq> [] \<and>
    ensure_answers env (selected args challenges) w = (Inr target', w1) \<longrightarrow>
      (\<exists>run w2. cmd_test env args challenges w = (Inr run, w2) \<and>
         length (run_results run) = length (selected args challenges) \<and>
         map row_id (run_results run) = map ch_id (selected args challenges) \<and>
         run_passed run = length (filter correct (run_results run)) \<and>
         (\<forall>r \<in> set (run_results run). \<exists>ch \<in> set target'. \<exists>w0 w3.
             test_challenge env args ch w0 = (Inr r, w3))))
   \<and> (correct_answer ch = Some answer \<and>
       run_llm env (arg_provider args) (arg_model args) SYSTEM_PROMPT (build_prompt ch) w = (Inl e, w')
       \<longrightarrow> test_challenge env args ch w = (Inr (failing_row ch answer (JArr []) (exn_str env e)), w'))
   \<and> (correct_answer ch = Some answer \<and>
       run_llm env (arg_provider args) (arg_model args) SYSTEM_PROMPT (build_prompt ch) w = (Inr response, w') \<and>
       parse_llm_response response = Inl e
       \<longrightarrow> test_challenge env args ch w = (Inr (failing_row ch answer (JArr []) (exn_str env e)), w'))
   \<and> (correct_answer ch = Some answer \<and>
       run_llm env (arg_provider args) (arg_model args) SYSTEM_PROMPT (build_prompt ch) w = (Inr response, w') \<and>
       parse_llm_response response = Inr v \<and> compare_answers_dyn answer v = Inl e
       \<longrightarrow> test_challenge env args ch w = (Inr (failing_row ch answer v (exn_str env e)), w'))"
proof (intro conjI impI)
  assume "selected args challenges \<noteq> [] \<and>
    ensure_answers env (selected args challenges) w = (Inr target', w1)"
  then show "\<exists>run w2. cmd_test env args challenges w = (Inr run, w2) \<and>
         length (run_results run) = length (selected args challenges) \<and>
         map row_id (run_results run) = map ch_id (selected args challenges) \<and>
         run_passed run = length (filter correct (run_results run)) \<and>
         (\<forall>r \<in> set (run_results run). \<exists>ch \<in> set target'. \<exists>w0 w3.
             test_challenge env args ch w0 = (Inr r, w3))"
    using cmd_test_rows [of args challenges env w target' w1] by simp
next
  assume "correct_answer ch = Some answer \<and>
       run_llm env (arg_provider args) (arg_model args) SYSTEM_PROMPT (build_prompt ch) w = (Inl e, w')"
  then show "test_challenge env args ch w = (Inr (failing_row ch answer (JArr []) (exn_str env e)), w')"
    by (simp add: test_challenge_def make_failing_row)
next
  assume "correct_answer ch = Some answer \<and>
       run_llm env (arg_provider args) (arg_model args) SYSTEM_PROMPT (build_prompt ch) w = (Inr response, w') \<and>
       parse_llm_response response = Inl e"
  then show "test_challenge env args ch w = (Inr (failing_row ch answer (JArr []) (exn_str env e)), w')"
    by (simp add: test_challenge_def make_failing_row)
next
  assume "correct_answer ch = Some answer \<and>
       run_llm env (arg_provider args) (arg_model args) SYSTEM_PROMPT (build_prompt ch) w = (Inr response, w') \<and>
       parse_llm_response response = Inr v \<and> compare_answers_dyn answer v = Inl e"
  then show "test_challenge env args ch w = (Inr (failing_row ch answer v (exn_str env e)), w')"
    by (simp add: test_challenge_def make_failing_row)
qed


lemma refusal_steps:
  "strip (py ''I do not know.'') = py ''I do not know.''"
  "\<not> contains (py ''I do not know.'') (py ''```'')"
  "bracket_span (py ''I do not know.'') = py ''I do not know.''"
  "json_loads (py ''I do not know.'') = Inl JSONDecodeError"
  by (simp_all add: strip_def isspace_def startswith_def bracket_span_def str_find_def str_rfind_def
        json_loads_def json_ws_def scan_atom_def match_number_def is_digit_def py_def)

lemma refusal_parse: "parse_llm_response (py ''I do not know.'') = Inl JSONDecodeError"
  by (simp only: parse_pipeline refusal_steps if_False simp_thms)

text \<open>
  Claim C1, as stated: every per-challenge failure of a test run, ground-truth resolution
  included, becomes a failing row, so that N challenges give N rows. \<open>cmd_test\<close> resolves
  the missing ground truths before its evaluation loop and outside any handler: in a batch
  of two challenges whose second one does not resolve, the failure leaves \<open>cmd_test\<close> and
  there is no row at all.
\<close>

theorem test_run_resolution_failure_counterexample:
  "fst (cmd_test counting_env
          \<lparr> arg_challenge = None, arg_model = py ''gpt-4o'', arg_provider = py ''openai'' \<rparr>
          [sample_challenge (py ''a'') (py ''FREQ=DAILY'') (Some (py ''hardcoded''))
             (Some [py ''2026-03-01T07:00:00+00:00'']),
           sample_challenge (py ''b'') (py ''FREQ=NEVER'') None None] 0)
   = Inl (Uncaught (OtherError (py ''unsupported rule'')))"
  by (simp add: cmd_test_def verify_challenge_def counting_env_def sample_challenge_def py_def)

theorem test_run_isolates_failures_witness:
  "(\<exists>run w2. cmd_test counting_env
        \<lparr> arg_challenge = None, arg_model = py ''gpt-4o'', arg_provider = py ''openai'' \<rparr>
        [sample_challenge (py ''a'') (py ''FREQ=DAILY'') (Some (py ''hardcoded''))
           (Some [py ''2026-03-01T07:00:00+00:00''])] 0 = (Inr run, w2) \<and>
      length (run_results run) = 1 \<and> map row_id (run_results run) = [py ''a''])
   \<and> test_challenge counting_env
        \<lparr> arg_challenge = None, arg_model = py ''gpt-4o'', arg_provider = py ''openai'' \<rparr>
        (sample_challenge (py ''a'') (py ''FREQ=DAILY'') (Some (py ''hardcoded''))
           (Some [py ''2026-03-01T07:00:00+00:00''])) 0
      = (Inr (failing_row
                (sample_challenge (py ''a'') (py ''FREQ=DAILY'') (Some (py ''hardcoded''))
                   (Some [py ''2026-03-01T07:00:00+00:00'']))
                [py ''2026-03-01T07:00:00+00:00''] (JArr []) (py ''connection refused'')), 1)
   \<and> test_challenge counting_env
        \<lparr> arg_challenge = None, arg_model = py ''claude'', arg_provider = py ''anthropic'' \<rparr>
        (sample_challenge (py ''a'') (py ''FREQ=DAILY'') (Some (py ''hardcoded''))
           (Some [py ''2026-03-01T07:00:00+00:00''])) 0
      = (Inr (failing_row
                (sample_challenge (py ''a'') (py ''FREQ=DAILY'') (Some (py ''hardcoded''))
                   (Some [py ''2026-03-01T07:00:00+00:00'']))
                [py ''2026-03-01T07:00:00+00:00''] (JArr []) (py ''Expecting value'')), 1)
   \<and> test_challenge counting_env
        \<lparr> arg_challenge = None, arg_model = py ''claude'', arg_provider = py ''anthropic'' \<rparr>
        (sample_challenge (py ''a'') (py ''FREQ=DAILY'') (Some (py ''hardcoded''))
           (Some [py ''2026-03-01T07:00:00+00:00''])) 1
      = (Inr (failing_row
                (sample_challenge (py ''a'') (py ''FREQ=DAILY'') (Some (py ''hardcoded''))
                   (Some [py ''2026-03-01T07:00:00+00:00'']))
                [py ''2026-03-01T07:00:00+00:00''] (JNum (py ''42'')) (py ''object is not iterable'')), 2)"
proof -
  let ?c = "sample_challenge (py ''a'') (py ''FREQ=DAILY'') (Some (py ''hardcoded''))
              (Some [py ''2026-03-01T07:00:00+00:00''])"
  let ?o = "\<lparr> arg_challenge = None, arg_model = py ''gpt-4o'', arg_provider = py ''openai'' \<rparr>"
  let ?a = "\<lparr> arg_challenge = None, arg_model = py ''claude'', arg_provider = py ''anthropic'' \<rparr>"
  have sel: "selected ?o [?c] = [?c]" by (simp add: selected_def)
  have ans: "correct_answer ?c = Some [py ''2026-03-01T07:00:00+00:00'']"
    by (simp add: sample_challenge_def)
  have h1: "selected ?o [?c] \<noteq> [] \<and> ensure_answers counting_env (selected ?o [?c]) 0 = (Inr [?c], 0)"
    unfolding sel by (simp add: ans)
  have h2: "correct_answer ?c = Some [py ''2026-03-01T07:00:00+00:00''] \<and>
      run_llm counting_env (arg_provider ?o) (arg_model ?o) SYSTEM_PROMPT (build_prompt ?c) 0
        = (Inl (OtherError (py ''connection refused'')), 1)"
    by (simp add: ans run_llm_def counting_env_def)
  have ne: "py ''anthropic'' \<noteq> py ''openai''" by (simp add: py_def)
  have h3: "correct_answer ?c = Some [py ''2026-03-01T07:00:00+00:00''] \<and>
      run_llm counting_env (arg_provider ?a) (arg_model ?a) SYSTEM_PROMPT (build_prompt ?c) 0
        = (Inr (py ''I do not know.''), 1) \<and>
      parse_llm_response (py ''I do not know.'') = Inl JSONDecodeError"
    by (simp add: ans run_llm_def counting_env_def ne refusal_parse)
  have h4: "correct_answer ?c = Some [py ''2026-03-01T07:00:00+00:00''] \<and>
      run_llm counting_env (arg_provider ?a) (arg_model ?a) SYSTEM_PROMPT (build_prompt ?c) 1
        = (Inr (py ''42''), 2) \<and>
      parse_llm_response (py ''42'') = Inr (JNum (py ''42'')) \<and>
      compare_answers_dyn [py ''2026-03-01T07:00:00+00:00''] (JNum (py ''42'')) = Inl TypeError"
    by (simp add: ans run_llm_def counting_env_def ne bare_number_parse compare_answers_dyn_def)
  have m: "exn_str counting_env (OtherError (py ''connection refused'')) = py ''connection refused''"
    "exn_str counting_env JSONDecodeError = py ''Expecting value''"
    "exn_str counting_env TypeError = py ''object is not iterable''"
    by (simp_all add: counting_env_def)
  have i: "map ch_id (selected ?o [?c]) = [py ''a'']"
    unfolding sel by (simp add: sample_challenge_def)
  note t1 = test_run_isolates_failures
    [where env = counting_env and args = ?o and challenges = "[?c]" and w = 0
       and target' = "[?c]" and ?w1.0 = 0 and ch = ?c
       and answer = "[py ''2026-03-01T07:00:00+00:00'']"
       and e = "OtherError (py ''connection refused'')" and w' = 1]
  note t2 = test_run_isolates_failures
    [where env = counting_env and args = ?a and w = 0 and ch = ?c
       and answer = "[py ''2026-03-01T07:00:00+00:00'']"
       and e = JSONDecodeError and w' = 1 and response = "py ''I do not know.''"]
  note t3 = test_run_isolates_failures
    [where env = counting_env and args = ?a and w = 1 and ch = ?c
       and answer = "[py ''2026-03-01T07:00:00+00:00'']"
       and e = TypeError and w' = 2 and response = "py ''42''" and v = "JNum (py ''42'')"]
  note a0 = conjunct1 [OF t1, THEN mp, OF h1]
  then obtain run w2 where r: "cmd_test counting_env ?o [?c] 0 = (Inr run, w2)"
    and l: "length (run_results run) = length (selected ?o [?c])"
    and k: "map row_id (run_results run) = map ch_id (selected ?o [?c])"
    by blast
  have l1: "length (run_results run) = 1" using l unfolding sel by simp
  have k1: "map row_id (run_results run) = [py ''a'']" using k unfolding i .
  have a: "\<exists>run w2. cmd_test counting_env ?o [?c] 0 = (Inr run, w2) \<and>
      length (run_results run) = 1 \<and> map row_id (run_results run) = [py ''a'']"
    by (intro exI conjI) (rule r, rule l1, rule k1)
  have b: "test_challenge counting_env ?o ?c 0
      = (Inr (failing_row ?c [py ''2026-03-01T07:00:00+00:00''] (JArr []) (py ''connection refused'')), 1)"
    using conjunct1 [OF conjunct2 [OF t1], THEN mp, OF h2] unfolding m .
  have c: "test_challenge counting_env ?a ?c 0
      = (Inr (failing_row ?c [py ''2026-03-01T07:00:00+00:00''] (JArr []) (py ''Expecting value'')), 1)"
    using conjunct1 [OF conjunct2 [OF conjunct2 [OF t2]], THEN mp, OF h3] unfolding m .
  have d: "test_challenge counting_env ?a ?c 1
      = (Inr (failing_row ?c [py ''2026-03-01T07:00:00+00:00''] (JNum (py ''42''))
                (py ''object is not iterable'')), 2)"
    using conjunct2 [OF conjunct2 [OF conjunct2 [OF t3]], THEN mp, OF h4] unfolding m .
  show ?thesis by (intro conjI) (rule a, rule b, rule c, rule d)
qed

end
